theory Spec2Isabelle
  imports Complex_Main "HOL-Library.AList" "HOL-Library.Sublist"
begin

section \<open>Python values, exceptions and the primitive operations the code relies on\<close>

text \<open>
  The values that travel through the repository are JSON-like: the serialized model, the
  container configuration, the database documents and the keyword arguments. A dictionary
  is an association list in insertion order; each key occurs once. \<open>PObj\<close> is an object
  without JSON form (a module, a function, a timestamp), known by a name only.
  Floating point numbers are carried as rationals: the code only stores and compares them.
\<close>

datatype pyval =
    PNone
  | PBool bool
  | PInt int
  | PFloat rat
  | PStr string
  | PList "pyval list"
  | PDict "(string \<times> pyval) list"
  | PObj string

text \<open>
  A message built with \<open>str.format\<close> or string concatenation is kept as its pieces: the
  literal text and the values rendered into it.
\<close>

datatype fragment = Txt string | Fmt pyval

text \<open>
  The exceptions that occur. \<open>Raised\<close> is any other exception class derived from
  \<open>Exception\<close> (raised by a library); \<open>KeyboardInterrupt\<close> and \<open>SystemExit\<close> derive from
  \<open>BaseException\<close> only.
\<close>

datatype exc =
    KeyError pyval
  | IndexError
  | TypeError string
  | AttributeError string
  | NameError string
  | UnboundLocalError string
  | AssertionError "fragment list"
  | NotImplementedError "fragment list"
  | ValueError string
  | ImportError string
  | Exception "fragment list"
  | Raised string
  | KeyboardInterrupt
  | SystemExit

text \<open>\<open>isinstance(e, Exception)\<close>: what a clause \<open>except Exception\<close> catches.\<close>

fun is_Exception :: "exc \<Rightarrow> bool" where
  "is_Exception KeyboardInterrupt = False"
| "is_Exception SystemExit = False"
| "is_Exception _ = True"

text \<open>Sequencing of computations that may raise: the first exception ends the run.\<close>

fun bindE :: "exc + 'a \<Rightarrow> ('a \<Rightarrow> exc + 'b) \<Rightarrow> exc + 'b" where
  "bindE (Inl e) f = Inl e"
| "bindE (Inr x) f = f x"

text \<open>\<open>hash(v)\<close> succeeds: lists and dictionaries are unhashable.\<close>

fun hashable :: "pyval \<Rightarrow> bool" where
  "hashable (PList _) = False"
| "hashable (PDict _) = False"
| "hashable _ = True"

text \<open>\<open>xs[i]\<close> on a sequence: a negative index counts from the end.\<close>

definition seq_index :: "'a list \<Rightarrow> int \<Rightarrow> exc + 'a" where
  "seq_index xs i =
     (if 0 \<le> i \<and> i < int (length xs) then Inr (xs ! nat i)
      else if i < 0 \<and> - int (length xs) \<le> i then Inr (xs ! nat (int (length xs) + i))
      else Inl IndexError)"

text \<open>\<open>obj[key]\<close>. The keys of a dictionary are strings.\<close>

fun py_getitem :: "pyval \<Rightarrow> pyval \<Rightarrow> exc + pyval" where
  "py_getitem (PDict d) key =
     (if \<not> hashable key then Inl (TypeError ''unhashable type'')
      else case key of
             PStr k \<Rightarrow> (case map_of d k of Some v \<Rightarrow> Inr v | None \<Rightarrow> Inl (KeyError key))
           | _ \<Rightarrow> Inl (KeyError key))"
| "py_getitem (PList xs) key =
     (case key of
        PInt i \<Rightarrow> seq_index xs i
      | PBool b \<Rightarrow> seq_index xs (if b then 1 else 0)
      | _ \<Rightarrow> Inl (TypeError ''list indices must be integers''))"
| "py_getitem (PStr s) key =
     (case key of
        PInt i \<Rightarrow> map_sum id (\<lambda>c. PStr [c]) (seq_index s i)
      | PBool b \<Rightarrow> map_sum id (\<lambda>c. PStr [c]) (seq_index s (if b then 1 else 0))
      | _ \<Rightarrow> Inl (TypeError ''string indices must be integers''))"
| "py_getitem _ key = Inl (TypeError ''object is not subscriptable'')"

text \<open>\<open>d.get(k, default)\<close>, a method of dictionaries only.\<close>

fun py_get :: "pyval \<Rightarrow> string \<Rightarrow> pyval \<Rightarrow> exc + pyval" where
  "py_get (PDict d) k dflt = Inr (case map_of d k of Some v \<Rightarrow> v | None \<Rightarrow> dflt)"
| "py_get _ k dflt = Inl (AttributeError ''get'')"

text \<open>\<open>'k' in obj\<close> for a string literal on the left.\<close>

fun str_in :: "string \<Rightarrow> pyval \<Rightarrow> exc + bool" where
  "str_in k (PDict d) = Inr (k \<in> fst ` set d)"
| "str_in k (PList xs) = Inr (PStr k \<in> set xs)"
| "str_in k (PStr s) = Inr (sublist k s)"
| "str_in k _ = Inl (TypeError ''argument is not iterable'')"

text \<open>The elements a \<open>for\<close> loop or a comprehension visits.\<close>

fun py_iter :: "pyval \<Rightarrow> exc + pyval list" where
  "py_iter (PList xs) = Inr xs"
| "py_iter (PStr s) = Inr (map (\<lambda>c. PStr [c]) s)"
| "py_iter (PDict d) = Inr (map (\<lambda>kv. PStr (fst kv)) d)"
| "py_iter _ = Inl (TypeError ''object is not iterable'')"

text \<open>\<open>len(obj)\<close>.\<close>

fun py_len :: "pyval \<Rightarrow> exc + int" where
  "py_len (PList xs) = Inr (int (length xs))"
| "py_len (PStr s) = Inr (int (length s))"
| "py_len (PDict d) = Inr (int (length d))"
| "py_len _ = Inl (TypeError ''object has no len()'')"


section \<open>appcom/utils.py\<close>

subsection \<open>sliced\<close>

text \<open>
  \<^verbatim>\<open>
  for k in data.keys():
      first = k
      break
  assert len(data[first]) > nb_train + nb_test + offset, 'nb or nb + offset too large: ...'
  beg = offset - len(data[first])
  endt = beg + nb_train
  endv = endt + nb_test
  return beg, endt, endv
  \<close>
  With an empty dictionary the loop body never runs and \<open>first\<close> stays unbound.
\<close>

definition sliced :: "(string \<times> pyval) list \<Rightarrow> int \<Rightarrow> int \<Rightarrow> int \<Rightarrow> exc + (int \<times> int \<times> int)" where
  "sliced data nb_train nb_test offset =
     (case map fst data of
        [] \<Rightarrow> Inl (UnboundLocalError ''first'')
      | first # _ \<Rightarrow>
          bindE (py_getitem (PDict data) (PStr first)) (\<lambda>arr.
          bindE (py_len arr) (\<lambda>n.
            if n > nb_train + nb_test + offset then
              (let beg = offset - n;
                   endt = beg + nb_train;
                   endv = endt + nb_test
               in Inr (beg, endt, endv))
            else
              Inl (AssertionError
                    [Txt ''nb or nb + offset too large: len(data):'', Fmt (PInt n),
                     Txt '', len(selection): '', Fmt (PInt (nb_train + nb_test + offset))]))))"

subsection \<open>switch_backend\<close>

text \<open>
  \<^verbatim>\<open>
  def get_backend():            # backend/keras_backend.py
      import keras as CB
      return CB

  def switch_backend(backend_name):
      if backend_name == 'keras':
          from ..backend.keras_backend import get_backend
      elif backend_name == 'sklearn':
          from ..backend.keras_backend import get_backend
      return get_backend()
  \<close>
  The outcome of the two imports is a parameter: \<open>import_keras_backend\<close> is the exception
  importing the module \<open>keras_backend\<close> raises, if any, and \<open>import_keras\<close> is the module
  \<open>import keras\<close> yields or the exception it raises. The import statement binds the local
  name \<open>get_backend\<close>; where no branch runs the name is unbound at the call.
\<close>

definition get_backend :: "exc + 'b \<Rightarrow> exc + 'b" where
  "get_backend import_keras = bindE import_keras (\<lambda>CB. Inr CB)"

definition switch_backend :: "exc option \<Rightarrow> exc + 'b \<Rightarrow> pyval \<Rightarrow> exc + 'b" where
  "switch_backend import_keras_backend import_keras backend_name =
     (if backend_name = PStr ''keras'' then
        (case import_keras_backend of Some e \<Rightarrow> Inl e | None \<Rightarrow> get_backend import_keras)
      else if backend_name = PStr ''sklearn'' then
        (case import_keras_backend of Some e \<Rightarrow> Inl e | None \<Rightarrow> get_backend import_keras)
      else Inl (UnboundLocalError ''get_backend''))"


section \<open>cli.py\<close>

text \<open>
  The names bound at module level in \<open>cli.py\<close> (its imports and its functions). A name
  that a function reads without assigning it is looked up here and then among the
  builtins; none of the names read below is a builtin, so a name outside this list
  is unresolved. The objects bound to these names are modules and functions.
\<close>

definition cli_module_names :: "string list" where
  "cli_module_names =
     [''sys'', ''click'', ''os'', ''json'', ''subprocess'', ''_alp_dir'',
      ''parse_cont'', ''build_commands'', ''action_config'', ''main'', ''service'']"

definition load_global :: "string \<Rightarrow> exc + pyval" where
  "load_global n = (if n \<in> set cli_module_names then Inr (PObj n) else Inl (NameError n))"

text \<open>
  An element of a command list: a value appended as it is, a string built with
  \<open>str.format\<close>, or a list appended as one element (\<open>volumes\<close>, \<open>links\<close>).
\<close>

datatype cmd_item = Item pyval | Formatted "fragment list" | Items "cmd_item list"

fun mapE :: "('a \<Rightarrow> exc + 'b) \<Rightarrow> 'a list \<Rightarrow> exc + 'b list" where
  "mapE f [] = Inr []"
| "mapE f (x # xs) = bindE (f x) (\<lambda>y. bindE (mapE f xs) (\<lambda>ys. Inr (y # ys)))"

text \<open>
  \<^verbatim>\<open>
  def parse_cont(container, action, volumes=None, links=None):
      container_command = []
      if 'NV_GPU' in containers[container]:
          container_command.append('NV_GPU={}'.format(containers[container]['NV_GPU']))
          container_command.append('nvidia-docker')
      else:
          container_command.append('docker')
      container_command.append(action)
      if action == 'run':
          container_command.append(container['mode'])
          if 'volumes' in container:
              container_command += ['-v', v]
          if volumes is not None:
              container_command.append(volumes)
          if links is not None:
              container_command.append(links)
          if 'ports' in container:
              container_command += ['-p', p]
          if 'options' in container:
              for option in container['options']:
                  container_command.append(option)
          container_command += ['--name', container['name']]
          container_command.append(containers[container]['container_name'])
      else:
          container_command.append(container['name'])
      return container_command
  \<close>
  \<open>containers\<close>, \<open>v\<close> and \<open>p\<close> are neither parameters nor assigned in the function: they are
  global names.
\<close>

definition parse_cont :: "pyval \<Rightarrow> pyval \<Rightarrow> cmd_item \<Rightarrow> cmd_item \<Rightarrow> exc + cmd_item list" where
  "parse_cont container action volumes links =
     bindE (load_global ''containers'') (\<lambda>containers.
     bindE (py_getitem containers container) (\<lambda>entry.
     bindE (str_in ''NV_GPU'' entry) (\<lambda>gpu.
     bindE (if gpu then
              bindE (load_global ''containers'') (\<lambda>containers.
              bindE (py_getitem containers container) (\<lambda>entry.
              bindE (py_getitem entry (PStr ''NV_GPU'')) (\<lambda>nv.
                Inr [Formatted [Txt ''NV_GPU='', Fmt nv], Item (PStr ''nvidia-docker'')])))
            else Inr [Item (PStr ''docker'')]) (\<lambda>cc.
     let cc = cc @ [Item action] in
     if action = PStr ''run'' then
       bindE (py_getitem container (PStr ''mode'')) (\<lambda>mode.
       let cc = cc @ [Item mode] in
       bindE (str_in ''volumes'' container) (\<lambda>has_volumes.
       bindE (if has_volumes
              then bindE (load_global ''v'') (\<lambda>v. Inr (cc @ [Item (PStr ''-v''), Item v]))
              else Inr cc) (\<lambda>cc.
       let cc = (if volumes \<noteq> Item PNone then cc @ [volumes] else cc);
           cc = (if links \<noteq> Item PNone then cc @ [links] else cc) in
       bindE (str_in ''ports'' container) (\<lambda>has_ports.
       bindE (if has_ports
              then bindE (load_global ''p'') (\<lambda>p. Inr (cc @ [Item (PStr ''-p''), Item p]))
              else Inr cc) (\<lambda>cc.
       bindE (str_in ''options'' container) (\<lambda>has_options.
       bindE (if has_options
              then bindE (py_getitem container (PStr ''options'')) (\<lambda>opts.
                   bindE (py_iter opts) (\<lambda>os. Inr (cc @ map Item os)))
              else Inr cc) (\<lambda>cc.
       bindE (py_getitem container (PStr ''name'')) (\<lambda>name.
       let cc = cc @ [Item (PStr ''--name''), Item name] in
       bindE (load_global ''containers'') (\<lambda>containers.
       bindE (py_getitem containers container) (\<lambda>entry.
       bindE (py_getitem entry (PStr ''container_name'')) (\<lambda>cn.
         Inr (cc @ [Item cn]))))))))))))
     else
       bindE (py_getitem container (PStr ''name'')) (\<lambda>name. Inr (cc @ [Item name]))))))"

text \<open>
  \<^verbatim>\<open>
  def build_commands(config, action):
      broker = config['broker']
      results_db = config['result_db']
      model_gen_db = config['model_gen_db']
      workers = config['workers']
      controlers = config['controlers']
      base_volumes = ['-v {}'.format(volume) for volume in config['base_volumes']]
      links = []
      links.append('--link={}'.format(models_gen_db['name']))
      links.append('--link={}'.format(broker['name']))
      broker_command = parse_cont(broker, action)
      r_db_command = parse_cont(results_db, action)
      m_g_db_command = parse_cont(model_gen_db, action)
      workers_commands = [parse_cont(worker, action, base_volumes, links)
                          for worker in workers]
      controlers_commands = [parse_cont(controler, action, base_columes, links)
                             for controler in controlers]
      all_commands = [broker_command] + [r_db_command] + [m_g_db_command]
      all_commands += workers_commands
      all_commands += controlers_commands
      return all_commands
  \<close>
  The local names are \<open>model_gen_db\<close> and \<open>base_volumes\<close>; \<open>models_gen_db\<close> and
  \<open>base_columes\<close> are read as global names.
\<close>

definition build_commands :: "pyval \<Rightarrow> pyval \<Rightarrow> exc + cmd_item list list" where
  "build_commands config action =
     bindE (py_getitem config (PStr ''broker'')) (\<lambda>broker.
     bindE (py_getitem config (PStr ''result_db'')) (\<lambda>results_db.
     bindE (py_getitem config (PStr ''model_gen_db'')) (\<lambda>model_gen_db.
     bindE (py_getitem config (PStr ''workers'')) (\<lambda>workers.
     bindE (py_getitem config (PStr ''controlers'')) (\<lambda>controlers.
     bindE (py_getitem config (PStr ''base_volumes'')) (\<lambda>bv.
     bindE (py_iter bv) (\<lambda>vols.
     let base_volumes = Items (map (\<lambda>volume. Formatted [Txt ''-v '', Fmt volume]) vols) in
     bindE (load_global ''models_gen_db'') (\<lambda>models_gen_db.
     bindE (py_getitem models_gen_db (PStr ''name'')) (\<lambda>n1.
     let links = [Formatted [Txt ''--link='', Fmt n1]] in
     bindE (py_getitem broker (PStr ''name'')) (\<lambda>n2.
     let links = links @ [Formatted [Txt ''--link='', Fmt n2]] in
     bindE (parse_cont broker action (Item PNone) (Item PNone)) (\<lambda>broker_command.
     bindE (parse_cont results_db action (Item PNone) (Item PNone)) (\<lambda>r_db_command.
     bindE (parse_cont model_gen_db action (Item PNone) (Item PNone)) (\<lambda>m_g_db_command.
     bindE (py_iter workers) (\<lambda>ws.
     bindE (mapE (\<lambda>worker. parse_cont worker action base_volumes (Items links)) ws)
       (\<lambda>workers_commands.
     bindE (py_iter controlers) (\<lambda>cs.
     bindE (mapE (\<lambda>controler.
              bindE (load_global ''base_columes'') (\<lambda>base_columes.
                parse_cont controler action (Item base_columes) (Items links))) cs)
       (\<lambda>controlers_commands.
       Inr ([broker_command] @ [r_db_command] @ [m_g_db_command]
            @ workers_commands @ controlers_commands))))))))))))))))))"

text \<open>
  \<^verbatim>\<open>
  def action_config(config, action):
      commands = build_commands(config)
      for command in commands:
          p = subprocess.Popen(command, stdout=subprocess.PIPE)
          ...
  \<close>
  A call binds the arguments to the two parameters of \<open>build_commands\<close>, neither of which
  has a default. The result of \<open>action_config\<close> is paired with the commands it has
  handed to \<open>subprocess.Popen\<close>.
\<close>

definition call_build_commands :: "pyval list \<Rightarrow> exc + cmd_item list list" where
  "call_build_commands arguments =
     (case arguments of
        [config, action] \<Rightarrow> build_commands config action
      | _ \<Rightarrow> Inl (TypeError ''build_commands() takes exactly 2 arguments''))"

definition action_config :: "pyval \<Rightarrow> pyval \<Rightarrow> (exc + unit) \<times> cmd_item list list" where
  "action_config config action =
     (case call_build_commands [config] of
        Inl e \<Rightarrow> (Inl e, [])
      | Inr commands \<Rightarrow> (Inr (), commands))"

text \<open>The configuration the repository's test writes (\<open>tests/test_alp.py\<close>).\<close>

definition test_config :: pyval where
  "test_config = PDict
     [(''broker'', PDict
         [(''volumes'', PList [PStr ''/opt/data/rabbitmq/dev/log:/dev/log'',
                               PStr ''/opt/data/rabbitmq:/var/lib/rabbitmq'']),
          (''ports'', PList [PStr ''8081:15672'', PStr ''5673:5672'']),
          (''name'', PStr ''rabbitmq_sched_test''),
          (''container_name'', PStr ''rabbitmq:3-management''),
          (''mode'', PStr ''-d'')]),
      (''result_db'', PDict
         [(''volumes'', PList [PStr ''/opt/data/mongo_data/results:/data/db'']),
          (''name'', PStr ''mongo_results_test''),
          (''container_name'', PStr ''mongo''),
          (''mode'', PStr ''-d'')]),
      (''model_gen_db'', PDict
         [(''volumes'', PList [PStr ''/opt/data/mongo_data/models:/data/db'']),
          (''name'', PStr ''mongo_models_test''),
          (''container_name'', PStr ''mongo''),
          (''mode'', PStr ''-d'')]),
      (''workers'', PList []),
      (''controlers'', PList [])]"


section \<open>dbbackend/__init__.py\<close>

text \<open>
  The module body runs once, when the package is imported. It reads the file
  \<open>~/.alp/alpdb.json\<close> if it exists, writes the file, and imports the database backend.
  The file is absent, holds text that is not JSON, or holds a JSON value.
\<close>

datatype config_file = Absent | Unparsable | Parsed pyval

record conn_params =
  db_engine :: pyval
  host_adress :: pyval
  host_port :: pyval
  db_name :: pyval
  models_collection :: pyval
  generators_collection :: pyval

text \<open>
  \<^verbatim>\<open>
  _db_engine = 'mongodb'
  _host_adress = 'mongo_m'
  _host_port = 27017
  _db_name = 'modelization'
  _models_collection = 'models'
  _generators_collection = 'generators'

  if os.getenv("TEST_MODE") == "ON":
      _host_adress = '127.0.0.1'
  \<close>
\<close>

definition default_params :: "bool \<Rightarrow> conn_params" where
  "default_params test_mode =
     \<lparr> db_engine = PStr ''mongodb'',
       host_adress = (if test_mode then PStr ''127.0.0.1'' else PStr ''mongo_m''),
       host_port = PInt 27017,
       db_name = PStr ''modelization'',
       models_collection = PStr ''models'',
       generators_collection = PStr ''generators'' \<rparr>"

text \<open>
  \<^verbatim>\<open>
  _config = json.load(open(_config_path))
  _db_engine = _config.get('db_engine', 'mongodb')
  assert _db_engine in {'mongodb'}
  _host_adress = _config.get('host_adress', 'mongo_m')
  _host_port = _config.get('host_port', 27017)
  _db_name = _config.get('db_name', 'modelization')
  _models_collection = _config.get('_models_collection', 'models')
  _generators_collection = _config.get('_generators_collection', 'models')
  \<close>
  Membership in the set literal hashes the value first.
\<close>

definition load_config :: "pyval \<Rightarrow> exc + conn_params" where
  "load_config cfg =
     bindE (py_get cfg ''db_engine'' (PStr ''mongodb'')) (\<lambda>engine.
     if \<not> hashable engine then Inl (TypeError ''unhashable type'')
     else if engine \<noteq> PStr ''mongodb'' then Inl (AssertionError [])
     else
       bindE (py_get cfg ''host_adress'' (PStr ''mongo_m'')) (\<lambda>adress.
       bindE (py_get cfg ''host_port'' (PInt 27017)) (\<lambda>port.
       bindE (py_get cfg ''db_name'' (PStr ''modelization'')) (\<lambda>name.
       bindE (py_get cfg ''_models_collection'' (PStr ''models'')) (\<lambda>models.
       bindE (py_get cfg ''_generators_collection'' (PStr ''models'')) (\<lambda>generators.
         Inr \<lparr> db_engine = engine, host_adress = adress, host_port = port,
               db_name = name, models_collection = models,
               generators_collection = generators \<rparr>))))))"

text \<open>
  \<^verbatim>\<open>
  _config = {'db_engine': _db_engine, 'host_adress': _host_adress,
             'host_port': _host_port, 'db_name': _db_name,
             'models_collection': _models_collection,
             'generators_collection': _generators_collection}
  with open(_config_path, 'w') as f:
      f.write(json.dumps(_config, indent=4))
  \<close>
\<close>

definition saved_config :: "conn_params \<Rightarrow> pyval" where
  "saved_config p = PDict
     [(''db_engine'', db_engine p),
      (''host_adress'', host_adress p),
      (''host_port'', host_port p),
      (''db_name'', db_name p),
      (''models_collection'', models_collection p),
      (''generators_collection'', generators_collection p)]"

text \<open>
  The whole module body: the result is the parameters in force, or the exception that
  aborts the import, paired with the content of the file afterwards.
  \<open>import_mongo_backend\<close> is the exception the final import raises, if any.
  \<^verbatim>\<open>
  if _db_engine == 'mongodb':
      from ..dbbackend.mongo_backend import *
  else:
      raise Exception('Unknown backend: ' + str(_db_engine))
  \<close>
\<close>

definition bootstrap :: "bool \<Rightarrow> exc option \<Rightarrow> config_file \<Rightarrow> (exc + conn_params) \<times> config_file" where
  "bootstrap test_mode import_mongo_backend file =
     (case (case file of
              Absent \<Rightarrow> Inr (default_params test_mode)
            | Unparsable \<Rightarrow> Inl (ValueError ''No JSON object could be decoded'')
            | Parsed cfg \<Rightarrow> load_config cfg) of
        Inl e \<Rightarrow> (Inl e, file)
      | Inr p \<Rightarrow>
          (if db_engine p = PStr ''mongodb'' then
             (case import_mongo_backend of Some e \<Rightarrow> Inl e | None \<Rightarrow> Inr p)
           else Inl (Exception [Txt ''Unknown backend: '', Fmt (db_engine p)]),
           Parsed (saved_config p)))"


section \<open>backend/keras_backend.py\<close>

subsection \<open>What the adaptor is given\<close>

text \<open>
  A Keras model object, as far as the adaptor reads it: the name of its class, the names
  of its metrics and inputs, and its parameters. \<open>class_name_interned\<close> tells whether the
  string object \<open>model.__class__.__name__\<close> is the interned one, as it is for a class
  written with a \<open>class\<close> statement; \<open>train\<close> compares the name with \<open>is\<close>.
\<close>

record kmodel =
  class_name :: string
  class_name_interned :: bool
  metrics_names :: "string list"
  input_names :: "string list"
  weights :: pyval

text \<open>The object \<open>model.fit\<close> returns: \<open>h.history\<close> and \<open>h.epoch\<close>.\<close>

record history =
  hist :: "(string \<times> pyval list) list"
  epoch :: "int list"

text \<open>
  The two ways \<open>train\<close> calls \<open>model.fit\<close>: \<open>fit(data=d, validation_data=dv, ...)\<close> and
  \<open>fit(x=X, y=y, validation_data=(X_val, y_val), ...)\<close>.
\<close>

datatype fit_call = GraphFit pyval pyval | ArrayFit pyval pyval pyval pyval

text \<open>
  The libraries and the modules of the package that are not part of the adaptor, as
  parameters. \<open>model_from_dict_w_opt\<close> rebuilds and compiles a model through Keras and
  dill; \<open>keras_fit\<close>, \<open>save_weights\<close> and \<open>load_weights\<close> are the methods of the Keras
  model; \<open>K_function\<close> is \<open>keras.backend.function\<close> on the inputs, outputs and state
  updates of the model (\<open>build_predict_func\<close>); the three \<open>create_...\<close> functions come
  from \<open>alp.backend.common\<close> and \<open>path_h5\<close> from \<open>alp.appcom\<close>; \<open>np_min\<close> is \<open>numpy.min\<close>;
  \<open>now_inserted\<close> and \<open>now_finished\<close> are the two readings of \<open>datetime.now()\<close>.
  Each of the calls that can raise yields the exception or its result.
\<close>

record externals =
  model_from_dict_w_opt :: "pyval \<Rightarrow> pyval \<Rightarrow> exc + kmodel"
  keras_fit :: "kmodel \<Rightarrow> fit_call \<Rightarrow> pyval list \<Rightarrow> (string \<times> pyval) list \<Rightarrow> exc + (history \<times> kmodel)"
  save_weights :: "kmodel \<Rightarrow> pyval \<Rightarrow> exc option"
  load_weights :: "kmodel \<Rightarrow> pyval \<Rightarrow> exc + kmodel"
  K_function :: "kmodel \<Rightarrow> exc + (pyval \<Rightarrow> exc + pyval)"
  create_model_hash :: "pyval \<Rightarrow> pyval \<Rightarrow> pyval"
  create_data_hash :: "pyval list \<Rightarrow> pyval"
  create_param_dump :: "pyval \<Rightarrow> pyval \<Rightarrow> pyval \<Rightarrow> pyval"
  path_h5 :: pyval
  np_min :: "pyval \<Rightarrow> exc + pyval"
  now_inserted :: pyval
  now_finished :: pyval

text \<open>\<open>d[k]\<close> and \<open>kwargs.get(k)\<close> on a dictionary with string keys.\<close>

definition lookupE :: "(string \<times> 'a) list \<Rightarrow> string \<Rightarrow> exc + 'a" where
  "lookupE d k = (case map_of d k of Some v \<Rightarrow> Inr v | None \<Rightarrow> Inl (KeyError (PStr k)))"

definition kw_get :: "(string \<times> pyval) list \<Rightarrow> string \<Rightarrow> pyval" where
  "kw_get kwargs k = (case map_of kwargs k of Some v \<Rightarrow> v | None \<Rightarrow> PNone)"

text \<open>\<open>d.pop(k)\<close> with no default.\<close>

fun py_pop :: "pyval \<Rightarrow> string \<Rightarrow> exc + pyval" where
  "py_pop (PDict d) k =
     (if k \<in> fst ` set d then Inr (PDict (AList.delete k d)) else Inl (KeyError (PStr k)))"
| "py_pop (PList xs) k = Inl (TypeError ''an integer is required'')"
| "py_pop _ k = Inl (AttributeError ''pop'')"

fun is_dict :: "pyval \<Rightarrow> bool" where
  "is_dict (PDict _) = True"
| "is_dict _ = False"

fun is_list :: "pyval \<Rightarrow> bool" where
  "is_list (PList _) = True"
| "is_list _ = False"

subsection \<open>train\<close>

text \<open>
  \<open>mod_name is "Graph"\<close>: identity with the interned literal.
\<close>

definition name_is :: "kmodel \<Rightarrow> string \<Rightarrow> bool" where
  "name_is model lit = (class_name_interned model \<and> class_name model = lit)"

text \<open>
  \<^verbatim>\<open>
  for metric in metrics_names:
      results['metrics'][metric] += h.history[metric]
      results['metrics']['val_' + metric] += h.history[metric]
  \<close>
\<close>

fun accumulate :: "(string \<times> pyval list) list \<Rightarrow> string list \<Rightarrow> (string \<times> pyval list) list
                     \<Rightarrow> exc + (string \<times> pyval list) list" where
  "accumulate h [] metrics = Inr metrics"
| "accumulate h (metric # rest) metrics =
     bindE (lookupE metrics metric) (\<lambda>cur.
     bindE (lookupE h metric) (\<lambda>new.
     let metrics = AList.update metric (cur @ new) metrics in
     bindE (lookupE metrics (''val_'' @ metric)) (\<lambda>cur_val.
     bindE (lookupE h metric) (\<lambda>new.
     let metrics = AList.update (''val_'' @ metric) (cur_val @ new) metrics in
     accumulate h rest metrics))))"

text \<open>
  The loop \<open>for d, dv in zip(data, data_val)\<close> of either branch, over the names read
  from \<open>model.metrics_names\<close> before it. The state is the model (which \<open>model.fit\<close>
  updates), the metrics collected so far, and \<open>h\<close>, unbound before the first pass.
  \<^verbatim>\<open>
  # Graph                                  # Sequential, Model
  h = model.fit(data=d,                    X, y = d['X'], d['y']
                validation_data=dv,        X_val, y_val = dv['X'], dv['y']
                *args, **kwargs)           h = model.fit(x=X, y=y,
                                                         validation_data=(X_val, y_val),
                                                         *args, **kwargs)
  \<close>
\<close>

fun fit_batches :: "externals \<Rightarrow> bool \<Rightarrow> string list \<Rightarrow> pyval list \<Rightarrow> (string \<times> pyval) list
                     \<Rightarrow> (pyval \<times> pyval) list
                     \<Rightarrow> kmodel \<times> (string \<times> pyval list) list \<times> history option
                     \<Rightarrow> exc + (kmodel \<times> (string \<times> pyval list) list \<times> history option)" where
  "fit_batches ext graph names args kwargs [] st = Inr st"
| "fit_batches ext graph names args kwargs ((d, dv) # rest) (model, metrics, h) =
     bindE (if graph then Inr (GraphFit d dv)
            else bindE (py_getitem d (PStr ''X'')) (\<lambda>X.
                 bindE (py_getitem d (PStr ''y'')) (\<lambda>y.
                 bindE (py_getitem dv (PStr ''X'')) (\<lambda>X_val.
                 bindE (py_getitem dv (PStr ''y'')) (\<lambda>y_val.
                   Inr (ArrayFit X y X_val y_val)))))) (\<lambda>call.
     bindE (keras_fit ext model call args kwargs) (\<lambda>(h, model).
     bindE (accumulate (hist h) names metrics) (\<lambda>metrics.
       fit_batches ext graph names args kwargs rest (model, metrics, Some h))))"

text \<open>
  \<^verbatim>\<open>results['metrics']['iter'] = h.epoch[-1] * len(data)\<close>
\<close>

definition train_finish :: "pyval list \<Rightarrow> kmodel \<times> (string \<times> pyval list) list \<times> history option
                              \<Rightarrow> exc + ((string \<times> pyval) list \<times> kmodel)" where
  "train_finish data st =
     (case st of (model, metrics, h) \<Rightarrow>
        (case h of
           None \<Rightarrow> Inl (UnboundLocalError ''h'')
         | Some h \<Rightarrow>
             bindE (seq_index (epoch h) (- 1)) (\<lambda>last.
               Inr (AList.update ''iter'' (PInt (last * int (length data)))
                      (map (\<lambda>kv. (fst kv, PList (snd kv))) metrics),
                    model))))"

text \<open>
  \<^verbatim>\<open>
  def train(model, data, data_val, *args, **kwargs):
      results = dict()
      results['metrics'] = dict()
      custom_objects = None
      if 'custom_objects' in kwargs:
          custom_objects = kwargs.pop('custom_objects')
      model = model_from_dict_w_opt(model, custom_objects=custom_objects)
      metrics_names = model.metrics_names
      for metric in metrics_names:
          results['metrics'][metric] = []
          results['metrics']['val_' + metric] = []
      mod_name = model.__class__.__name__
      if mod_name is "Graph":
          ...
      elif mod_name is "Sequential" or mod_name is "Model":
          ...
      else:
          raise NotImplementedError("This type of model"
                                    "is not supported: {}".format(mod_name))
      return results, model
  \<close>
  The value returned is \<open>results['metrics']\<close>, the only entry of \<open>results\<close>, and the model.
\<close>

definition train :: "externals \<Rightarrow> pyval \<Rightarrow> pyval list \<Rightarrow> pyval list \<Rightarrow> pyval list \<Rightarrow> (string \<times> pyval) list
                       \<Rightarrow> exc + ((string \<times> pyval) list \<times> kmodel)" where
  "train ext model data data_val args kwargs =
     (let custom_objects = kw_get kwargs ''custom_objects'';
          kwargs = AList.delete ''custom_objects'' kwargs
      in bindE (model_from_dict_w_opt ext model custom_objects) (\<lambda>model.
         let names = metrics_names model;
             metrics =
               fold (\<lambda>metric r. AList.update (''val_'' @ metric) [] (AList.update metric [] r))
                    names []
         in if name_is model ''Graph'' then
              bindE (fit_batches ext True names args kwargs (zip data data_val)
                       (model, metrics, None))
                    (train_finish data)
            else if name_is model ''Sequential'' \<or> name_is model ''Model'' then
              bindE (fit_batches ext False names args kwargs (zip data data_val)
                       (model, metrics, None))
                    (train_finish data)
            else Inl (NotImplementedError
                       [Txt ''This type of modelis not supported: '', Fmt (PStr (class_name model))])))"

subsection \<open>The collection of trained models\<close>

text \<open>
  Modelled from the spec: the functions \<open>insert\<close> and \<open>update\<close> of
  \<open>alp.dbbackend.mongo_backend\<close>, which is not among the source files. The spec speaks of
  documents in a collection and of a training failure that marks a database record. A
  collection is the list of its documents, a document is identified by its position,
  \<open>insert\<close> adds a document and returns its identifier, and
  \<open>update({"_id": i}, {'$set': changes})\<close> assigns the changed fields in the document \<open>i\<close>.
\<close>

definition db_insert :: "(string \<times> pyval) list list \<Rightarrow> (string \<times> pyval) list
                           \<Rightarrow> nat \<times> (string \<times> pyval) list list" where
  "db_insert db doc = (length db, db @ [doc])"

definition set_fields :: "(string \<times> pyval) list \<Rightarrow> (string \<times> pyval) list \<Rightarrow> (string \<times> pyval) list" where
  "set_fields changes doc = fold (\<lambda>kv. AList.update (fst kv) (snd kv)) changes doc"

definition db_update :: "(string \<times> pyval) list list \<Rightarrow> nat \<Rightarrow> (string \<times> pyval) list
                           \<Rightarrow> (string \<times> pyval) list list" where
  "db_update db i changes = (if i < length db then db[i := set_fields changes (db ! i)] else db)"

subsection \<open>fit\<close>

text \<open>
  \<^verbatim>\<open>
  if kwargs.get("batch_size") is None:
      kwargs['batch_size'] = 32
  \<close>
\<close>

definition fit_kwargs :: "(string \<times> pyval) list \<Rightarrow> (string \<times> pyval) list" where
  "fit_kwargs kwargs =
     (if kw_get kwargs ''batch_size'' = PNone
      then AList.update ''batch_size'' (PInt 32) kwargs
      else kwargs)"

text \<open>
  \<^verbatim>\<open>
  full_json = {'backend_name': backend_name,
               'backend_version': backend_version,
               'model_arch': model['model_arch'],
               'datetime': datetime.now(),
               'mod_id': hexdi_m,
               'data_id': hexdi_d,
               'params_dump': params_dump,
               'batch_size': kwargs['batch_size'],
               'trained': 0,
               'data_path': "sent",
               'root': "sent",
               'data_s': "sent"}
  \<close>
\<close>

definition full_json :: "externals \<Rightarrow> pyval \<Rightarrow> pyval \<Rightarrow> pyval \<Rightarrow> pyval \<Rightarrow> pyval \<Rightarrow> pyval \<Rightarrow> pyval
                           \<Rightarrow> (string \<times> pyval) list" where
  "full_json ext backend_name backend_version model_arch hexdi_m hexdi_d params_dump batch_size =
     [(''backend_name'', backend_name),
      (''backend_version'', backend_version),
      (''model_arch'', model_arch),
      (''datetime'', now_inserted ext),
      (''mod_id'', hexdi_m),
      (''data_id'', hexdi_d),
      (''params_dump'', params_dump),
      (''batch_size'', batch_size),
      (''trained'', PInt 0),
      (''data_path'', PStr ''sent''),
      (''root'', PStr ''sent''),
      (''data_s'', PStr ''sent'')]"

text \<open>
  \<^verbatim>\<open>
  for metric in results['metrics']:
      res_dict[metric] = results['metrics'][metric]
      if metric in ['loss', 'val_loss']:
          res_dict[metric] = np.min(results['metrics'][metric])
  \<close>
\<close>

fun build_res :: "externals \<Rightarrow> (string \<times> pyval) list \<Rightarrow> string list \<Rightarrow> (string \<times> pyval) list
                    \<Rightarrow> exc + (string \<times> pyval) list" where
  "build_res ext metrics [] res_dict = Inr res_dict"
| "build_res ext metrics (metric # rest) res_dict =
     bindE (lookupE metrics metric) (\<lambda>v.
     let res_dict = AList.update metric v res_dict in
     bindE (if metric \<in> set [''loss'', ''val_loss''] then
              bindE (lookupE metrics metric) (\<lambda>v.
              bindE (np_min ext v) (\<lambda>m. Inr (AList.update metric m res_dict)))
            else Inr res_dict) (\<lambda>res_dict.
       build_res ext metrics rest res_dict))"

text \<open>
  The body of the \<open>try\<close> statement: its outcome and the collection afterwards.
  \<^verbatim>\<open>
  results, model = train(model['model_arch'], data, data_val, *args, **kwargs)
  res_dict = {'iter_stopped': results['metrics']['iter'],
              'trained': 1,
              'date_finished_training': datetime.now()}
  for metric in results['metrics']: ...
  db.update({"_id": mod_id}, {'$set': res_dict})
  model.save_weights(params_dump, overwrite=True)
  results['model_id'] = hexdi_m
  results['data_id'] = hexdi_d
  results['params_dump'] = params_dump
  \<close>
\<close>

definition fit_try :: "externals \<Rightarrow> (string \<times> pyval) list list \<Rightarrow> nat \<Rightarrow> pyval \<Rightarrow> pyval list \<Rightarrow> pyval list
                         \<Rightarrow> pyval list \<Rightarrow> (string \<times> pyval) list \<Rightarrow> pyval \<Rightarrow> pyval \<Rightarrow> pyval
                         \<Rightarrow> (exc + pyval) \<times> (string \<times> pyval) list list" where
  "fit_try ext db mod_id model_arch data data_val args kwargs hexdi_m hexdi_d params_dump =
     (case train ext model_arch data data_val args kwargs of
        Inl e \<Rightarrow> (Inl e, db)
      | Inr (metrics, model) \<Rightarrow>
          (case bindE (lookupE metrics ''iter'') (\<lambda>iter.
                  build_res ext metrics (map fst metrics)
                    [(''iter_stopped'', iter),
                     (''trained'', PInt 1),
                     (''date_finished_training'', now_finished ext)]) of
             Inl e \<Rightarrow> (Inl e, db)
           | Inr res_dict \<Rightarrow>
               (let db = db_update db mod_id res_dict in
                case save_weights ext model params_dump of
                  Some e \<Rightarrow> (Inl e, db)
                | None \<Rightarrow>
                    (Inr (PDict [(''metrics'', PDict metrics),
                                 (''model_id'', hexdi_m),
                                 (''data_id'', hexdi_d),
                                 (''params_dump'', params_dump)]),
                     db))))"

text \<open>
  \<^verbatim>\<open>
  def fit(backend_name, backend_version, model, data, data_val, *args, **kwargs):
      if kwargs.get("batch_size") is None:
          kwargs['batch_size'] = 32
      batch_size = kwargs['batch_size']
      hexdi_m = cm.create_model_hash(model, batch_size)
      hexdi_d = cm.create_data_hash(data)
      params_dump = cm.create_param_dump(_path_h5, hexdi_m, hexdi_d)
      full_json = {...}
      mod_id = db.insert(full_json)
      try:
          ...
      except Exception:
          db.update({"_id": mod_id}, {'$set': {'error': 1}})
          raise
      return results
  \<close>
  The result is what \<open>fit\<close> returns or raises, paired with the collection afterwards.
  \<open>fit_protected\<close> is the \<open>try\<close> statement with its handler and the \<open>return\<close>, given
  the identifier \<open>db.insert\<close> returned and the collection it left.
\<close>

definition fit_protected :: "externals \<Rightarrow> nat \<times> (string \<times> pyval) list list \<Rightarrow> pyval \<Rightarrow> pyval list
                               \<Rightarrow> pyval list \<Rightarrow> pyval list \<Rightarrow> (string \<times> pyval) list
                               \<Rightarrow> pyval \<Rightarrow> pyval \<Rightarrow> pyval
                               \<Rightarrow> (exc + pyval) \<times> (string \<times> pyval) list list" where
  "fit_protected ext inserted model_arch data data_val args kwargs hexdi_m hexdi_d params_dump =
     (case inserted of (mod_id, db) \<Rightarrow>
        (case fit_try ext db mod_id model_arch data data_val args kwargs
                hexdi_m hexdi_d params_dump of
           (Inl e, db) \<Rightarrow>
             if is_Exception e
             then (Inl e, db_update db mod_id [(''error'', PInt 1)])
             else (Inl e, db)
         | (Inr results, db) \<Rightarrow> (Inr results, db)))"

definition fit :: "externals \<Rightarrow> (string \<times> pyval) list list \<Rightarrow> pyval \<Rightarrow> pyval \<Rightarrow> pyval \<Rightarrow> pyval list
                     \<Rightarrow> pyval list \<Rightarrow> pyval list \<Rightarrow> (string \<times> pyval) list
                     \<Rightarrow> (exc + pyval) \<times> (string \<times> pyval) list list" where
  "fit ext db backend_name backend_version model data data_val args kwargs =
     (let kwargs = fit_kwargs kwargs in
      case lookupE kwargs ''batch_size'' of
        Inl e \<Rightarrow> (Inl e, db)
      | Inr batch_size \<Rightarrow>
          (let hexdi_m = create_model_hash ext model batch_size;
               hexdi_d = create_data_hash ext data;
               params_dump = create_param_dump ext (path_h5 ext) hexdi_m hexdi_d
           in case py_getitem model (PStr ''model_arch'') of
                Inl e \<Rightarrow> (Inl e, db)
              | Inr model_arch \<Rightarrow>
                  fit_protected ext
                    (db_insert db
                       (full_json ext backend_name backend_version model_arch
                          hexdi_m hexdi_d params_dump batch_size))
                    model_arch data data_val args kwargs hexdi_m hexdi_d params_dump))"

subsection \<open>predict and the cache of compiled models\<close>

text \<open>
  \<open>COMPILED_MODELS\<close> maps a model identifier to the dictionary with the entries \<open>'pred'\<close>
  and \<open>'model'\<close>. Keys that Python holds equal (\<open>True\<close>, \<open>1\<close> and \<open>1.0\<close>) share an entry.
\<close>

definition dict_key :: "pyval \<Rightarrow> pyval" where
  "dict_key v =
     (case v of
        PBool b \<Rightarrow> PInt (if b then 1 else 0)
      | PFloat q \<Rightarrow> (if of_int \<lfloor>q\<rfloor> = q then PInt \<lfloor>q\<rfloor> else PFloat q)
      | _ \<Rightarrow> v)"

text \<open>
  \<^verbatim>\<open>
  if model_name == 'Graph':
      if isinstance(data, dict):
          data = [data[n] for n in model_k.input_names]
      if not isinstance(data, list):
          data = [data]
  elif model_name == 'Sequential':
      if not isinstance(data, list):
          data = [data]
  elif model_name == 'Model':
      if isinstance(data, dict):
          data = [data[k] for k in model_k.input_names]
      elif not isinstance(data, list):
          data = [data]
  else:
      raise NotImplementedError(
          '{}: This type of model is not supported'.format(model_name))
  return pred_function(data)
  \<close>
\<close>

definition predict_dispatch :: "(pyval \<Rightarrow> exc + pyval) \<Rightarrow> kmodel \<Rightarrow> pyval \<Rightarrow> pyval \<Rightarrow> exc + pyval" where
  "predict_dispatch pred_function model_k model_name data =
     (if model_name = PStr ''Graph'' then
        bindE (if is_dict data
               then bindE (mapE (\<lambda>n. py_getitem data (PStr n)) (input_names model_k))
                      (\<lambda>xs. Inr (PList xs))
               else Inr data) (\<lambda>data.
        pred_function (if \<not> is_list data then PList [data] else data))
      else if model_name = PStr ''Sequential'' then
        pred_function (if \<not> is_list data then PList [data] else data)
      else if model_name = PStr ''Model'' then
        bindE (if is_dict data
               then bindE (mapE (\<lambda>k. py_getitem data (PStr k)) (input_names model_k))
                      (\<lambda>xs. Inr (PList xs))
               else if \<not> is_list data then Inr (PList [data])
               else Inr data) pred_function
      else Inl (NotImplementedError
                 [Fmt model_name, Txt '': This type of model is not supported'']))"

text \<open>
  The \<open>else\<close> branch of the cache test: rebuild the model, load its weights and compile
  the prediction function.
  \<^verbatim>\<open>
  model_dict = model['model_arch']
  model_dict.pop('optimizer')
  model_k = model_from_dict_w_opt(model_dict, custom_objects=custom_objects)
  model_name = model_dict['config'].get('class_name')
  model_k.load_weights(model['params_dump'])
  pred_function = build_predict_func(model_k)
  \<close>
\<close>

definition compile_model :: "externals \<Rightarrow> pyval \<Rightarrow> pyval
                               \<Rightarrow> exc + ((pyval \<Rightarrow> exc + pyval) \<times> kmodel \<times> pyval)" where
  "compile_model ext model custom_objects =
     bindE (py_getitem model (PStr ''model_arch'')) (\<lambda>model_dict.
     bindE (py_pop model_dict ''optimizer'') (\<lambda>model_dict.
     bindE (model_from_dict_w_opt ext model_dict custom_objects) (\<lambda>model_k.
     bindE (py_getitem model_dict (PStr ''config'')) (\<lambda>config.
     bindE (py_get config ''class_name'' PNone) (\<lambda>model_name.
     bindE (py_getitem model (PStr ''params_dump'')) (\<lambda>params_dump.
     bindE (load_weights ext model_k params_dump) (\<lambda>model_k.
     bindE (K_function ext model_k) (\<lambda>pred_function.
       Inr (pred_function, model_k, model_name)))))))))"

text \<open>
  \<^verbatim>\<open>
  def predict(model, data, *args, **kwargs):
      custom_objects = kwargs.get('custom_objects')
      if model['mod_id'] in COMPILED_MODELS:
          pred_function = COMPILED_MODELS[model['mod_id']]['pred']
          model_k = COMPILED_MODELS[model['mod_id']]['model']
          model_name = model['model_arch']['config'].get('class_name')
      else:
          ...
          COMPILED_MODELS[model['mod_id']] = dict()
          COMPILED_MODELS[model['mod_id']]['pred'] = pred_function
          COMPILED_MODELS[model['mod_id']]['model'] = model_k
      ...
      return pred_function(data)
  \<close>
  The result is what \<open>predict\<close> returns or raises, paired with \<open>COMPILED_MODELS\<close> afterwards.
\<close>

definition predict :: "externals \<Rightarrow> (pyval \<rightharpoonup> (pyval \<Rightarrow> exc + pyval) \<times> kmodel) \<Rightarrow> pyval \<Rightarrow> pyval
                         \<Rightarrow> pyval list \<Rightarrow> (string \<times> pyval) list
                         \<Rightarrow> (exc + pyval) \<times> (pyval \<rightharpoonup> (pyval \<Rightarrow> exc + pyval) \<times> kmodel)" where
  "predict ext compiled_models model data args kwargs =
     (let custom_objects = kw_get kwargs ''custom_objects'' in
      case py_getitem model (PStr ''mod_id'') of
        Inl e \<Rightarrow> (Inl e, compiled_models)
      | Inr mod_id \<Rightarrow>
          if \<not> hashable mod_id then (Inl (TypeError ''unhashable type''), compiled_models)
          else
            (case compiled_models (dict_key mod_id) of
               Some (pred_function, model_k) \<Rightarrow>
                 (case bindE (py_getitem model (PStr ''model_arch'')) (\<lambda>model_arch.
                       bindE (py_getitem model_arch (PStr ''config'')) (\<lambda>config.
                         py_get config ''class_name'' PNone)) of
                    Inl e \<Rightarrow> (Inl e, compiled_models)
                  | Inr model_name \<Rightarrow>
                      (predict_dispatch pred_function model_k model_name data, compiled_models))
             | None \<Rightarrow>
                 (case compile_model ext model custom_objects of
                    Inl e \<Rightarrow> (Inl e, compiled_models)
                  | Inr (pred_function, model_k, model_name) \<Rightarrow>
                      (predict_dispatch pred_function model_k model_name data,
                       compiled_models(dict_key mod_id \<mapsto> (pred_function, model_k))))))"


record worker =
  collection :: "(string \<times> pyval) list list"
  compiled :: "pyval \<rightharpoonup> (pyval \<Rightarrow> exc + pyval) \<times> kmodel"




section \<open>A concrete environment\<close>

text \<open>
  An environment to run the adaptor in: a rebuilt model takes its class from the
  serialized configuration and monitors \<open>loss\<close> and \<open>acc\<close>; every call of \<open>model.fit\<close>
  runs two epochs; the compiled prediction function returns its input; the minimum is
  taken over a list of floats.
\<close>

definition example_rebuild :: "pyval \<Rightarrow> pyval \<Rightarrow> exc + kmodel" where
  "example_rebuild model_dict custom_objects =
     bindE (py_getitem model_dict (PStr ''config'')) (\<lambda>config.
     bindE (py_get config ''class_name'' PNone) (\<lambda>name.
       case name of
         PStr n \<Rightarrow> Inr \<lparr> class_name = n, class_name_interned = True,
                         metrics_names = [''loss'', ''acc''],
                         input_names = [''input_1''], weights = PNone \<rparr>
       | _ \<Rightarrow> Inl (ValueError ''Improper config format'')))"

definition example_history :: history where
  "example_history =
     \<lparr> hist = [(''loss'', [PFloat (9 / 10), PFloat (1 / 2)]),
               (''acc'', [PFloat (1 / 2), PFloat (3 / 4)])],
       epoch = [0, 1] \<rparr>"

definition example_min :: "pyval \<Rightarrow> exc + pyval" where
  "example_min v =
     (case v of
        PList (PFloat x # xs) \<Rightarrow>
          Inr (PFloat (fold (\<lambda>y m. case y of PFloat q \<Rightarrow> min q m | _ \<Rightarrow> m) xs x))
      | _ \<Rightarrow> Inl (ValueError ''zero-size array''))"

definition example_ext :: externals where
  "example_ext =
     \<lparr> model_from_dict_w_opt = example_rebuild,
       keras_fit = (\<lambda>model call args kwargs. Inr (example_history, model)),
       save_weights = (\<lambda>model path. None),
       load_weights = (\<lambda>model path. Inr (model\<lparr>weights := path\<rparr>)),
       K_function = (\<lambda>model. Inr (\<lambda>data. Inr data)),
       create_model_hash = (\<lambda>model batch_size. PStr ''6d6f64656c''),
       create_data_hash = (\<lambda>data. PStr ''64617461''),
       create_param_dump = (\<lambda>path hm hd. PStr ''/parameters_h5/6d6f64656c64617461.h5''),
       path_h5 = PStr ''/parameters_h5/'',
       np_min = example_min,
       now_inserted = PObj ''datetime(2016, 10, 1, 9, 0)'',
       now_finished = PObj ''datetime(2016, 10, 1, 9, 30)'' \<rparr>"

definition example_arch :: "string \<Rightarrow> pyval" where
  "example_arch name = PDict
     [(''config'', PDict [(''class_name'', PStr name), (''config'', PList [])]),
      (''optimizer'', PDict [(''name'', PStr ''sgd'')]),
      (''loss'', PDict [(''dense_1'', PStr ''mse'')])]"

definition example_model :: "string \<Rightarrow> pyval" where
  "example_model name = PDict
     [(''model_arch'', example_arch name),
      (''mod_id'', PStr ''6d6f64656c''),
      (''params_dump'', PStr ''/parameters_h5/6d6f64656c64617461.h5'')]"

definition example_data :: "pyval list" where
  "example_data = [PDict [(''X'', PList [PFloat 1, PFloat 2]), (''y'', PList [PFloat 0, PFloat 1])]]"


text \<open>The same environment with a \<open>model.fit\<close> that raises \<open>e\<close>.\<close>

definition failing_ext :: "exc \<Rightarrow> externals" where
  "failing_ext e = example_ext\<lparr>keras_fit := (\<lambda>model call args kwargs. Inl e)\<rparr>"

text \<open>A configuration with every entry \<open>build_commands\<close> reads.\<close>

definition complete_config :: pyval where
  "complete_config = PDict
     [(''broker'', PDict [(''name'', PStr ''rabbitmq_sched''), (''mode'', PStr ''-d'')]),
      (''result_db'', PDict [(''name'', PStr ''mongo_results''), (''mode'', PStr ''-d'')]),
      (''model_gen_db'', PDict [(''name'', PStr ''mongo_models''), (''mode'', PStr ''-d'')]),
      (''workers'', PList []),
      (''controlers'', PList []),
      (''base_volumes'', PList [PStr ''/opt/data:/data''])]"


section \<open>Properties of appcom/utils.py\<close>


text \<open>
  Claim C8. For a non-empty data dictionary whose first array has length \<open>L\<close>, \<open>sliced\<close>
  returns the triple \<open>(offset - L, offset - L + nb_train, offset - L + nb_train + nb_test)\<close>
  when \<open>L > nb_train + nb_test + offset\<close>, and fails its assertion otherwise.
\<close>

theorem sliced_returns_offsets:
  assumes "data = (k, arr) # rest" and "py_len arr = Inr L"
  shows "sliced data nb_train nb_test offset =
           (if L > nb_train + nb_test + offset
            then Inr (offset - L, offset - L + nb_train, offset - L + nb_train + nb_test)
            else Inl (AssertionError
                       [Txt ''nb or nb + offset too large: len(data):'', Fmt (PInt L),
                        Txt '', len(selection): '', Fmt (PInt (nb_train + nb_test + offset))]))"
  using assms by (simp add: sliced_def Let_def)

theorem sliced_returns_offsets_witness:
  "sliced [(''X'', PList [PInt 1, PInt 2, PInt 3, PInt 4, PInt 5]), (''y'', PList [])] 2 1 1
     = Inr (- 4, - 2, - 1)
   \<and> sliced [(''X'', PList [PInt 1, PInt 2, PInt 3, PInt 4])] 2 1 1
     = Inl (AssertionError
             [Txt ''nb or nb + offset too large: len(data):'', Fmt (PInt 4),
              Txt '', len(selection): '', Fmt (PInt 4)])"
  using sliced_returns_offsets [of "[(''X'', PList [PInt 1, PInt 2, PInt 3, PInt 4, PInt 5]), (''y'', PList [])]"
          "''X''" "PList [PInt 1, PInt 2, PInt 3, PInt 4, PInt 5]" "[(''y'', PList [])]" 5 2 1 1]
        sliced_returns_offsets [of "[(''X'', PList [PInt 1, PInt 2, PInt 3, PInt 4])]"
          "''X''" "PList [PInt 1, PInt 2, PInt 3, PInt 4]" "[]" 4 2 1 1]
  by simp

text \<open>
  Claim C10. \<open>switch_backend\<close> gives for the name \<open>'sklearn'\<close> what it gives for \<open>'keras'\<close>
  (the backend \<open>get_backend\<close> of the keras adaptor returns, when the imports succeed), and
  for any other name it fails on the unbound local name \<open>get_backend\<close>.
\<close>

theorem switch_backend_sklearn_is_keras:
  "switch_backend ikb ik (PStr ''sklearn'') = switch_backend ikb ik (PStr ''keras'')
   \<and> switch_backend None (Inr CB) (PStr ''sklearn'') = Inr CB
   \<and> switch_backend None (Inr CB) (PStr ''keras'') = Inr CB
   \<and> (\<forall>name. name \<noteq> PStr ''keras'' \<and> name \<noteq> PStr ''sklearn'' \<longrightarrow>
         switch_backend ikb ik name = Inl (UnboundLocalError ''get_backend''))"
  by (simp add: switch_backend_def get_backend_def)

theorem switch_backend_sklearn_is_keras_witness:
  "switch_backend None (Inr ''keras'') (PStr ''sklearn'') = Inr ''keras''
   \<and> switch_backend None (Inr ''keras'') (PStr ''keras'') = Inr ''keras''
   \<and> switch_backend None (Inr ''keras'') (PStr ''theano'') = Inl (UnboundLocalError ''get_backend'')"
  using switch_backend_sklearn_is_keras [of None "Inr ''keras''" "''keras''"]
  by simp


section \<open>Properties of cli.py\<close>

lemma isl_bindE: "(\<And>x. isl (f x)) \<Longrightarrow> isl (bindE m f)"
  by (cases m) simp_all

lemma bindE_Inl_iff:
  "bindE m f = Inl e \<longleftrightarrow> m = Inl e \<or> (\<exists>x. m = Inr x \<and> f x = Inl e)"
  by (cases m) simp_all

lemma seq_index_error: "seq_index xs i = Inl e \<Longrightarrow> e = IndexError"
  by (simp add: seq_index_def Let_def split: if_splits)

lemma py_getitem_error:
  "py_getitem x k = Inl e \<Longrightarrow> (\<exists>v. e = KeyError v) \<or> e = IndexError \<or> (\<exists>s. e = TypeError s)"
  by (cases x; cases k)
     (auto simp: map_sum_def dest: seq_index_error split: option.splits sum.splits if_splits)

lemma py_iter_error: "py_iter x = Inl e \<Longrightarrow> \<exists>s. e = TypeError s"
  by (cases x) auto

lemma load_global_models_gen_db:
  "load_global ''models_gen_db'' = Inl (NameError ''models_gen_db'')"
  by (simp add: load_global_def cli_module_names_def)

lemma load_global_containers: "load_global ''containers'' = Inl (NameError ''containers'')"
  by (simp add: load_global_def cli_module_names_def)

lemma parse_cont_unresolved:
  "parse_cont container action volumes links = Inl (NameError ''containers'')"
  by (simp add: parse_cont_def load_global_containers)

lemma build_commands_raises: "isl (build_commands config action)"
  by (auto simp: build_commands_def load_global_models_gen_db intro!: isl_bindE)

lemma build_commands_NameError_iff:
  "build_commands config action = Inl (NameError n) \<longleftrightarrow>
     n = ''models_gen_db''
     \<and> (\<exists>broker results_db model_gen_db workers controlers bv vols.
          py_getitem config (PStr ''broker'') = Inr broker
        \<and> py_getitem config (PStr ''result_db'') = Inr results_db
        \<and> py_getitem config (PStr ''model_gen_db'') = Inr model_gen_db
        \<and> py_getitem config (PStr ''workers'') = Inr workers
        \<and> py_getitem config (PStr ''controlers'') = Inr controlers
        \<and> py_getitem config (PStr ''base_volumes'') = Inr bv
        \<and> py_iter bv = Inr vols)"
  by (auto simp: build_commands_def load_global_models_gen_db bindE_Inl_iff
           dest: py_getitem_error py_iter_error)

lemma action_config_no_command:
  "action_config config action
     = (Inl (TypeError ''build_commands() takes exactly 2 arguments''), [])"
  by (simp add: action_config_def call_build_commands_def)

lemma py_getitem_str_error:
  "py_getitem x (PStr k) = Inl e \<Longrightarrow> e = KeyError (PStr k) \<or> (\<exists>s. e = TypeError s)"
  by (cases x) (auto split: option.splits)

lemma build_commands_empty_config:
  "build_commands (PDict []) (PStr ''run'') = Inl (KeyError (PStr ''broker''))"
  by (simp add: build_commands_def)

lemma build_commands_error_cases:
  "build_commands config action = Inl e \<Longrightarrow>
     e = NameError ''models_gen_db''
     \<or> py_getitem config (PStr ''broker'') = Inl e
     \<or> py_getitem config (PStr ''result_db'') = Inl e
     \<or> py_getitem config (PStr ''model_gen_db'') = Inl e
     \<or> py_getitem config (PStr ''workers'') = Inl e
     \<or> py_getitem config (PStr ''controlers'') = Inl e
     \<or> py_getitem config (PStr ''base_volumes'') = Inl e
     \<or> (\<exists>bv. py_getitem config (PStr ''base_volumes'') = Inr bv \<and> py_iter bv = Inl e)"
  by (auto simp: build_commands_def load_global_models_gen_db bindE_Inl_iff)

lemma build_commands_error_class:
  assumes "build_commands config action = Inl e" and "e \<noteq> NameError ''models_gen_db''"
  shows "(\<exists>v. e = KeyError v) \<or> (\<exists>s. e = TypeError s)"
  using build_commands_error_cases [OF assms(1)] assms(2)
        py_getitem_str_error [of config _ e] py_iter_error [of _ e]
  by blast

lemma build_commands_first_failure:
  "build_commands config action
     = bindE (py_getitem config (PStr ''broker'')) (\<lambda>broker.
       bindE (py_getitem config (PStr ''result_db'')) (\<lambda>results_db.
       bindE (py_getitem config (PStr ''model_gen_db'')) (\<lambda>model_gen_db.
       bindE (py_getitem config (PStr ''workers'')) (\<lambda>workers.
       bindE (py_getitem config (PStr ''controlers'')) (\<lambda>controlers.
       bindE (py_getitem config (PStr ''base_volumes'')) (\<lambda>bv.
       bindE (py_iter bv) (\<lambda>vols. Inl (NameError ''models_gen_db''))))))))"
  by (simp add: build_commands_def load_global_models_gen_db)

text \<open>
  Claim C5, as the code has it. No call of the command builders returns a command list,
  and \<open>action_config\<close> hands no command to the container runtime. \<open>parse_cont\<close> fails on
  the unresolved name \<open>containers\<close> for every input. \<open>build_commands\<close> fails on the
  unresolved name \<open>models_gen_db\<close> exactly when the configuration has the entries
  \<open>broker\<close>, \<open>result_db\<close>, \<open>model_gen_db\<close>, \<open>workers\<close>, \<open>controlers\<close> and an iterable
  \<open>base_volumes\<close>. Otherwise it fails before, with the error of a read it cannot do,
  which is a \<open>KeyError\<close> or a \<open>TypeError\<close>: the reads are done in this order, the first
  that fails gives the result, and no other unresolved name is ever reached.
\<close>

theorem command_builders_never_return:
  "parse_cont container action volumes links = Inl (NameError ''containers'')
   \<and> isl (build_commands config action)
   \<and> (build_commands config action = Inl (NameError n) \<longleftrightarrow>
        n = ''models_gen_db''
        \<and> (\<exists>broker results_db model_gen_db workers controlers bv vols.
             py_getitem config (PStr ''broker'') = Inr broker
           \<and> py_getitem config (PStr ''result_db'') = Inr results_db
           \<and> py_getitem config (PStr ''model_gen_db'') = Inr model_gen_db
           \<and> py_getitem config (PStr ''workers'') = Inr workers
           \<and> py_getitem config (PStr ''controlers'') = Inr controlers
           \<and> py_getitem config (PStr ''base_volumes'') = Inr bv
           \<and> py_iter bv = Inr vols))
   \<and> (build_commands config action = Inl e \<and> e \<noteq> NameError ''models_gen_db'' \<longrightarrow>
        (py_getitem config (PStr ''broker'') = Inl e
         \<or> py_getitem config (PStr ''result_db'') = Inl e
         \<or> py_getitem config (PStr ''model_gen_db'') = Inl e
         \<or> py_getitem config (PStr ''workers'') = Inl e
         \<or> py_getitem config (PStr ''controlers'') = Inl e
         \<or> py_getitem config (PStr ''base_volumes'') = Inl e
         \<or> (\<exists>bv. py_getitem config (PStr ''base_volumes'') = Inr bv \<and> py_iter bv = Inl e))
        \<and> ((\<exists>v. e = KeyError v) \<or> (\<exists>s. e = TypeError s)))
   \<and> build_commands config action
        = bindE (py_getitem config (PStr ''broker'')) (\<lambda>broker.
          bindE (py_getitem config (PStr ''result_db'')) (\<lambda>results_db.
          bindE (py_getitem config (PStr ''model_gen_db'')) (\<lambda>model_gen_db.
          bindE (py_getitem config (PStr ''workers'')) (\<lambda>workers.
          bindE (py_getitem config (PStr ''controlers'')) (\<lambda>controlers.
          bindE (py_getitem config (PStr ''base_volumes'')) (\<lambda>bv.
          bindE (py_iter bv) (\<lambda>vols. Inl (NameError ''models_gen_db''))))))))
   \<and> action_config config action
        = (Inl (TypeError ''build_commands() takes exactly 2 arguments''), [])"
proof (intro conjI impI)
  assume h: "build_commands config action = Inl e \<and> e \<noteq> NameError ''models_gen_db''"
  with build_commands_error_cases [of config action e]
  show "py_getitem config (PStr ''broker'') = Inl e
         \<or> py_getitem config (PStr ''result_db'') = Inl e
         \<or> py_getitem config (PStr ''model_gen_db'') = Inl e
         \<or> py_getitem config (PStr ''workers'') = Inl e
         \<or> py_getitem config (PStr ''controlers'') = Inl e
         \<or> py_getitem config (PStr ''base_volumes'') = Inl e
         \<or> (\<exists>bv. py_getitem config (PStr ''base_volumes'') = Inr bv \<and> py_iter bv = Inl e)"
    by blast
  from h build_commands_error_class [of config action e]
  show "(\<exists>v. e = KeyError v) \<or> (\<exists>s. e = TypeError s)"
    by blast
qed (rule parse_cont_unresolved build_commands_raises build_commands_NameError_iff
          build_commands_first_failure action_config_no_command)+

theorem command_builders_never_return_witness:
  "build_commands complete_config (PStr ''run'') = Inl (NameError ''models_gen_db'')
   \<and> parse_cont (PDict [(''name'', PStr ''rabbitmq_sched'')]) (PStr ''run'') (Item PNone) (Item PNone)
       = Inl (NameError ''containers'')
   \<and> snd (action_config complete_config (PStr ''run'')) = []
   \<and> build_commands (PDict []) (PStr ''run'') = Inl (KeyError (PStr ''broker''))
   \<and> (py_getitem (PDict []) (PStr ''broker'') = Inl (KeyError (PStr ''broker''))
        \<or> py_getitem (PDict []) (PStr ''result_db'') = Inl (KeyError (PStr ''broker''))
        \<or> py_getitem (PDict []) (PStr ''model_gen_db'') = Inl (KeyError (PStr ''broker''))
        \<or> py_getitem (PDict []) (PStr ''workers'') = Inl (KeyError (PStr ''broker''))
        \<or> py_getitem (PDict []) (PStr ''controlers'') = Inl (KeyError (PStr ''broker''))
        \<or> py_getitem (PDict []) (PStr ''base_volumes'') = Inl (KeyError (PStr ''broker''))
        \<or> (\<exists>bv. py_getitem (PDict []) (PStr ''base_volumes'') = Inr bv
                 \<and> py_iter bv = Inl (KeyError (PStr ''broker''))))"
proof -
  have cfg: "py_getitem complete_config (PStr ''broker'')
               = Inr (PDict [(''name'', PStr ''rabbitmq_sched''), (''mode'', PStr ''-d'')])
           \<and> py_getitem complete_config (PStr ''result_db'')
               = Inr (PDict [(''name'', PStr ''mongo_results''), (''mode'', PStr ''-d'')])
           \<and> py_getitem complete_config (PStr ''model_gen_db'')
               = Inr (PDict [(''name'', PStr ''mongo_models''), (''mode'', PStr ''-d'')])
           \<and> py_getitem complete_config (PStr ''workers'') = Inr (PList [])
           \<and> py_getitem complete_config (PStr ''controlers'') = Inr (PList [])
           \<and> py_getitem complete_config (PStr ''base_volumes'') = Inr (PList [PStr ''/opt/data:/data''])
           \<and> py_iter (PList [PStr ''/opt/data:/data'']) = Inr [PStr ''/opt/data:/data'']"
    by (simp add: complete_config_def)
  note th = command_builders_never_return
         [where container = "PDict [(''name'', PStr ''rabbitmq_sched'')]" and action = "PStr ''run''"
            and volumes = "Item PNone" and links = "Item PNone" and config = complete_config
            and n = "''models_gen_db''"]
  from th [THEN conjunct1] th [THEN conjunct2, THEN conjunct2, THEN conjunct1]
       th [THEN conjunct2, THEN conjunct2, THEN conjunct2, THEN conjunct2, THEN conjunct2] cfg
  have a: "build_commands complete_config (PStr ''run'') = Inl (NameError ''models_gen_db'')
   \<and> parse_cont (PDict [(''name'', PStr ''rabbitmq_sched'')]) (PStr ''run'') (Item PNone) (Item PNone)
       = Inl (NameError ''containers'')
   \<and> snd (action_config complete_config (PStr ''run'')) = []"
    by simp
  have ne: "KeyError (PStr ''broker'') \<noteq> NameError ''models_gen_db''" by simp
  from command_builders_never_return
         [where config = "PDict []" and action = "PStr ''run''"
            and e = "KeyError (PStr ''broker'')",
          THEN conjunct2, THEN conjunct2, THEN conjunct2, THEN conjunct1, rule_format,
          OF conjI [OF build_commands_empty_config ne], THEN conjunct1]
  have b: "py_getitem (PDict []) (PStr ''broker'') = Inl (KeyError (PStr ''broker''))
        \<or> py_getitem (PDict []) (PStr ''result_db'') = Inl (KeyError (PStr ''broker''))
        \<or> py_getitem (PDict []) (PStr ''model_gen_db'') = Inl (KeyError (PStr ''broker''))
        \<or> py_getitem (PDict []) (PStr ''workers'') = Inl (KeyError (PStr ''broker''))
        \<or> py_getitem (PDict []) (PStr ''controlers'') = Inl (KeyError (PStr ''broker''))
        \<or> py_getitem (PDict []) (PStr ''base_volumes'') = Inl (KeyError (PStr ''broker''))
        \<or> (\<exists>bv. py_getitem (PDict []) (PStr ''base_volumes'') = Inr bv
                 \<and> py_iter bv = Inl (KeyError (PStr ''broker'')))" .
  from a b build_commands_empty_config show ?thesis by blast
qed

text \<open>
  The claim as stated fails on the configuration of the repository's own test, which has
  no entry \<open>base_volumes\<close>: the failure is a \<open>KeyError\<close>, no unresolved name is reached.
\<close>

theorem test_config_fails_with_KeyError:
  "build_commands test_config (PStr ''run'') = Inl (KeyError (PStr ''base_volumes''))
   \<and> build_commands test_config (PStr ''run'') \<noteq> Inl (NameError ''models_gen_db'')"
  by (simp add: build_commands_def test_config_def)


section \<open>Properties of dbbackend/__init__.py\<close>

lemma load_config_PDict:
  "load_config (PDict d) =
     (if \<not> hashable (case map_of d ''db_engine'' of Some v \<Rightarrow> v | None \<Rightarrow> PStr ''mongodb'')
      then Inl (TypeError ''unhashable type'')
      else if (case map_of d ''db_engine'' of Some v \<Rightarrow> v | None \<Rightarrow> PStr ''mongodb'')
                \<noteq> PStr ''mongodb''
      then Inl (AssertionError [])
      else Inr \<lparr> db_engine = PStr ''mongodb'',
                 host_adress = (case map_of d ''host_adress'' of Some v \<Rightarrow> v | None \<Rightarrow> PStr ''mongo_m''),
                 host_port = (case map_of d ''host_port'' of Some v \<Rightarrow> v | None \<Rightarrow> PInt 27017),
                 db_name = (case map_of d ''db_name'' of Some v \<Rightarrow> v | None \<Rightarrow> PStr ''modelization''),
                 models_collection =
                   (case map_of d ''_models_collection'' of Some v \<Rightarrow> v | None \<Rightarrow> PStr ''models''),
                 generators_collection =
                   (case map_of d ''_generators_collection'' of Some v \<Rightarrow> v | None \<Rightarrow> PStr ''models'') \<rparr>)"
  by (simp add: load_config_def)

lemma load_config_fails_iff:
  "isl (load_config (PDict d)) \<longleftrightarrow>
     (\<exists>engine. map_of d ''db_engine'' = Some engine \<and> engine \<noteq> PStr ''mongodb'')"
  unfolding load_config_PDict by (cases "map_of d ''db_engine''") auto

lemma load_config_values:
  assumes "load_config (PDict d) = Inr p"
  shows "db_engine p = PStr ''mongodb''
       \<and> py_get (PDict d) ''host_adress'' (PStr ''mongo_m'') = Inr (host_adress p)
       \<and> py_get (PDict d) ''host_port'' (PInt 27017) = Inr (host_port p)
       \<and> py_get (PDict d) ''db_name'' (PStr ''modelization'') = Inr (db_name p)
       \<and> py_get (PDict d) ''_models_collection'' (PStr ''models'') = Inr (models_collection p)
       \<and> py_get (PDict d) ''_generators_collection'' (PStr ''models'')
           = Inr (generators_collection p)"
proof -
  from assms have
    "p = \<lparr> db_engine = PStr ''mongodb'',
          host_adress = (case map_of d ''host_adress'' of Some v \<Rightarrow> v | None \<Rightarrow> PStr ''mongo_m''),
          host_port = (case map_of d ''host_port'' of Some v \<Rightarrow> v | None \<Rightarrow> PInt 27017),
          db_name = (case map_of d ''db_name'' of Some v \<Rightarrow> v | None \<Rightarrow> PStr ''modelization''),
          models_collection =
            (case map_of d ''_models_collection'' of Some v \<Rightarrow> v | None \<Rightarrow> PStr ''models''),
          generators_collection =
            (case map_of d ''_generators_collection'' of Some v \<Rightarrow> v | None \<Rightarrow> PStr ''models'') \<rparr>"
    unfolding load_config_PDict by (simp split: if_splits)
  then show ?thesis by simp
qed

lemma load_config_assert:
  "map_of d ''db_engine'' = Some engine \<Longrightarrow> hashable engine \<Longrightarrow> engine \<noteq> PStr ''mongodb'' \<Longrightarrow>
     load_config (PDict d) = Inl (AssertionError [])"
  unfolding load_config_PDict by simp

lemma bootstrap_parsed:
  "bootstrap test_mode import_mongo_backend (Parsed (PDict d)) =
     (case load_config (PDict d) of
        Inl e \<Rightarrow> (Inl e, Parsed (PDict d))
      | Inr p \<Rightarrow> (case import_mongo_backend of Some e \<Rightarrow> Inl e | None \<Rightarrow> Inr p,
                  Parsed (saved_config p)))"
proof (cases "load_config (PDict d)")
  case (Inl e)
  then show ?thesis by (simp add: bootstrap_def)
next
  case (Inr p)
  with load_config_values [of d p] have "db_engine p = PStr ''mongodb''" by blast
  with Inr show ?thesis by (simp add: bootstrap_def)
qed

text \<open>
  Claim C6, as the code has it. Loading a JSON object applies the per-key defaults and
  checks one loaded value: \<open>db_engine\<close> must be \<open>'mongodb'\<close>. Loading fails exactly when
  the entry \<open>db_engine\<close> is present with another value (with an \<open>AssertionError\<close> when
  that value is hashable), and then the bootstrap raises and leaves the file as it was;
  no other loaded value is checked: each is taken as found.
\<close>

theorem load_config_checks_db_engine_only:
  "(isl (load_config (PDict d)) \<longleftrightarrow>
      (\<exists>engine. map_of d ''db_engine'' = Some engine \<and> engine \<noteq> PStr ''mongodb''))
   \<and> (map_of d ''db_engine'' = Some engine \<and> hashable engine \<and> engine \<noteq> PStr ''mongodb''
        \<longrightarrow> load_config (PDict d) = Inl (AssertionError []))
   \<and> (load_config (PDict d) = Inr p \<longrightarrow>
          db_engine p = PStr ''mongodb''
        \<and> py_get (PDict d) ''host_adress'' (PStr ''mongo_m'') = Inr (host_adress p)
        \<and> py_get (PDict d) ''host_port'' (PInt 27017) = Inr (host_port p)
        \<and> py_get (PDict d) ''db_name'' (PStr ''modelization'') = Inr (db_name p)
        \<and> py_get (PDict d) ''_models_collection'' (PStr ''models'') = Inr (models_collection p)
        \<and> py_get (PDict d) ''_generators_collection'' (PStr ''models'')
            = Inr (generators_collection p))
   \<and> bootstrap test_mode import_mongo_backend (Parsed (PDict d)) =
       (case load_config (PDict d) of
          Inl e \<Rightarrow> (Inl e, Parsed (PDict d))
        | Inr p \<Rightarrow> (case import_mongo_backend of Some e \<Rightarrow> Inl e | None \<Rightarrow> Inr p,
                    Parsed (saved_config p)))"
proof (intro conjI impI)
  show "isl (load_config (PDict d)) \<longleftrightarrow>
          (\<exists>engine. map_of d ''db_engine'' = Some engine \<and> engine \<noteq> PStr ''mongodb'')"
    by (rule load_config_fails_iff)
next
  assume "map_of d ''db_engine'' = Some engine \<and> hashable engine \<and> engine \<noteq> PStr ''mongodb''"
  then show "load_config (PDict d) = Inl (AssertionError [])"
    by (simp add: load_config_assert)
next
  show "bootstrap test_mode import_mongo_backend (Parsed (PDict d)) =
       (case load_config (PDict d) of
          Inl e \<Rightarrow> (Inl e, Parsed (PDict d))
        | Inr p \<Rightarrow> (case import_mongo_backend of Some e \<Rightarrow> Inl e | None \<Rightarrow> Inr p,
                    Parsed (saved_config p)))"
    by (rule bootstrap_parsed)
qed (use load_config_values [of d p] in blast)+

theorem load_config_checks_db_engine_only_witness:
  "load_config (PDict [(''db_engine'', PInt 7), (''host_port'', PStr ''no port'')])
     = Inl (AssertionError [])
   \<and> \<not> isl (load_config (PDict [(''host_port'', PStr ''no port'')]))
   \<and> (\<exists>p. load_config (PDict [(''host_port'', PStr ''no port'')]) = Inr p
          \<and> host_port p = PStr ''no port'' \<and> db_engine p = PStr ''mongodb'')"
proof -
  have a: "load_config (PDict [(''db_engine'', PInt 7), (''host_port'', PStr ''no port'')])
             = Inl (AssertionError [])"
    using load_config_checks_db_engine_only
            [of "[(''db_engine'', PInt 7), (''host_port'', PStr ''no port'')]" "PInt 7"]
    by simp
  have b: "\<not> isl (load_config (PDict [(''host_port'', PStr ''no port'')]))"
    using load_config_checks_db_engine_only [of "[(''host_port'', PStr ''no port'')]"]
    by simp
  then obtain p where p: "load_config (PDict [(''host_port'', PStr ''no port'')]) = Inr p"
    by (cases "load_config (PDict [(''host_port'', PStr ''no port'')])") auto
  from load_config_checks_db_engine_only [of "[(''host_port'', PStr ''no port'')]" _ p] p
  have "host_port p = PStr ''no port'' \<and> db_engine p = PStr ''mongodb''"
    by simp
  with a b p show ?thesis by blast
qed

text \<open>
  The claim as stated fails on a file that names another engine: the assertion on the
  loaded value aborts the bootstrap.
\<close>

theorem bootstrap_rejects_other_engine:
  "bootstrap False None (Parsed (PDict [(''db_engine'', PStr ''postgres'')]))
     = (Inl (AssertionError []), Parsed (PDict [(''db_engine'', PStr ''postgres'')]))"
  by (simp add: bootstrap_def load_config_PDict)

lemma load_saved_config:
  "db_engine p = PStr ''mongodb'' \<Longrightarrow>
     load_config (saved_config p)
       = Inr (p\<lparr>models_collection := PStr ''models'', generators_collection := PStr ''models''\<rparr>)"
  unfolding saved_config_def load_config_PDict by simp

text \<open>
  Claim C7 does not hold of the code. The first start, with no file, writes the defaults,
  among them \<open>generators_collection = 'generators'\<close>. The next start reads the file it wrote
  and comes up with \<open>generators_collection = 'models'\<close>: the collection names are written
  under \<open>models_collection\<close> and \<open>generators_collection\<close> and read under \<open>_models_collection\<close>
  and \<open>_generators_collection\<close>, so they are never read back.
\<close>

theorem collections_not_read_back:
  "bootstrap False None Absent
     = (Inr (default_params False), Parsed (saved_config (default_params False)))
   \<and> generators_collection (default_params False) = PStr ''generators''
   \<and> bootstrap False None (Parsed (saved_config (default_params False)))
     = (Inr ((default_params False)\<lparr>generators_collection := PStr ''models''\<rparr>),
        Parsed (saved_config ((default_params False)\<lparr>generators_collection := PStr ''models''\<rparr>)))"
proof -
  have first: "bootstrap False None Absent
     = (Inr (default_params False), Parsed (saved_config (default_params False)))"
    by (simp add: bootstrap_def default_params_def)
  have engine: "db_engine (default_params False) = PStr ''mongodb''"
    by (simp add: default_params_def)
  have second: "load_config (saved_config (default_params False))
     = Inr ((default_params False)\<lparr>generators_collection := PStr ''models''\<rparr>)"
    unfolding load_saved_config [OF engine] by (simp add: default_params_def)
  have "bootstrap False None (Parsed (saved_config (default_params False)))
     = (Inr ((default_params False)\<lparr>generators_collection := PStr ''models''\<rparr>),
        Parsed (saved_config ((default_params False)\<lparr>generators_collection := PStr ''models''\<rparr>)))"
    unfolding bootstrap_def by (simp add: second engine)
  moreover have "generators_collection (default_params False) = PStr ''generators''"
    by (simp add: default_params_def)
  ultimately show ?thesis using first by blast
qed


section \<open>Properties of backend/keras_backend.py: fit\<close>

lemma lookupE_fit_kwargs:
  "lookupE (fit_kwargs kwargs) ''batch_size'' = Inr (kw_get (fit_kwargs kwargs) ''batch_size'')"
  by (simp add: fit_kwargs_def kw_get_def lookupE_def update_conv' split: option.splits)

lemma fit_unfold:
  assumes "py_getitem model (PStr ''model_arch'') = Inr model_arch"
  shows "fit ext db backend_name backend_version model data data_val args kwargs =
           (let kwargs = fit_kwargs kwargs;
                batch_size = kw_get kwargs ''batch_size'';
                hexdi_m = create_model_hash ext model batch_size;
                hexdi_d = create_data_hash ext data;
                params_dump = create_param_dump ext (path_h5 ext) hexdi_m hexdi_d
            in fit_protected ext
                 (db_insert db (full_json ext backend_name backend_version model_arch
                                  hexdi_m hexdi_d params_dump batch_size))
                 model_arch data data_val args kwargs hexdi_m hexdi_d params_dump)"
  using assms by (simp add: fit_def Let_def lookupE_fit_kwargs)

lemma db_update_last:
  "db_update (db @ [doc]) (length db) changes = db @ [set_fields changes doc]"
  by (simp add: db_update_def)

lemma set_error_full_json:
  "set_fields [(''error'', PInt 1)] (full_json ext bn bv arch h_m h_d pd bs)
     = full_json ext bn bv arch h_m h_d pd bs @ [(''error'', PInt 1)]"
  by (simp add: set_fields_def full_json_def)

lemma fit_protected_train_fails:
  assumes "train ext model_arch data data_val args kwargs = Inl e"
  shows "fit_protected ext (db_insert db doc) model_arch data data_val args kwargs h_m h_d pd =
           (Inl e, db @ [if is_Exception e then set_fields [(''error'', PInt 1)] doc else doc])"
  using assms by (simp add: fit_protected_def fit_try_def db_insert_def db_update_last)

lemma example_model_arch:
  "py_getitem (example_model name) (PStr ''model_arch'') = Inr (example_arch name)"
  by (simp add: example_model_def)

lemma fit_kwargs_Nil: "fit_kwargs [] = [(''batch_size'', PInt 32)]"
  by (simp add: fit_kwargs_def kw_get_def)

lemma example_rebuild_arch:
  "example_rebuild (example_arch name) custom_objects
     = Inr \<lparr> class_name = name, class_name_interned = True,
             metrics_names = [''loss'', ''acc''],
             input_names = [''input_1''], weights = PNone \<rparr>"
  by (simp add: example_rebuild_def example_arch_def)

lemma failing_ext_hashes:
  "create_model_hash (failing_ext e) model batch_size = PStr ''6d6f64656c''"
  "create_data_hash (failing_ext e) data = PStr ''64617461''"
  "create_param_dump (failing_ext e) path h_m h_d = PStr ''/parameters_h5/6d6f64656c64617461.h5''"
  by (simp_all add: failing_ext_def example_ext_def)

lemma failing_train:
  "train (failing_ext e) (example_arch ''Sequential'') example_data example_data []
     [(''batch_size'', PInt 32)] = Inl e"
  by (simp add: train_def Let_def failing_ext_def example_ext_def example_rebuild_arch
                name_is_def example_data_def)

text \<open>
  Claim C1, as the code has it. If the call of \<open>train\<close> inside \<open>fit\<close> raises an exception
  that is an instance of \<open>Exception\<close>, \<open>fit\<close> sets the field \<open>error\<close> to 1 in the document it
  inserted for the run and raises the same exception; the document is otherwise as it
  was inserted (\<open>trained\<close> is still 0). An exception outside \<open>Exception\<close> passes through
  \<open>except Exception\<close>: it is raised to the caller and the document stays as inserted.
\<close>

theorem fit_train_failure:
  assumes "py_getitem model (PStr ''model_arch'') = Inr model_arch"
    and "train ext model_arch data data_val args (fit_kwargs kwargs) = Inl e"
  shows "fit ext db backend_name backend_version model data data_val args kwargs =
           (let batch_size = kw_get (fit_kwargs kwargs) ''batch_size'';
                hexdi_m = create_model_hash ext model batch_size;
                hexdi_d = create_data_hash ext data;
                params_dump = create_param_dump ext (path_h5 ext) hexdi_m hexdi_d;
                doc = full_json ext backend_name backend_version model_arch
                        hexdi_m hexdi_d params_dump batch_size
            in (Inl e, db @ [if is_Exception e then doc @ [(''error'', PInt 1)] else doc]))"
  using assms
  by (simp add: fit_unfold Let_def fit_protected_train_fails set_error_full_json)

theorem fit_train_failure_witness:
  "fit (failing_ext (Raised ''MemoryError'')) [] (PStr ''keras'') (PStr ''1.1.0'')
       (example_model ''Sequential'') example_data example_data [] []
     = (Inl (Raised ''MemoryError''),
        [full_json (failing_ext (Raised ''MemoryError'')) (PStr ''keras'') (PStr ''1.1.0'')
           (example_arch ''Sequential'') (PStr ''6d6f64656c'') (PStr ''64617461'')
           (PStr ''/parameters_h5/6d6f64656c64617461.h5'') (PInt 32)
         @ [(''error'', PInt 1)]])"
proof -
  have tr: "train (failing_ext (Raised ''MemoryError'')) (example_arch ''Sequential'')
              example_data example_data [] (fit_kwargs []) = Inl (Raised ''MemoryError'')"
    by (simp add: fit_kwargs_Nil failing_train)
  from fit_train_failure [OF example_model_arch tr, of "[]" "PStr ''keras''" "PStr ''1.1.0''"]
  show ?thesis
    by (simp add: Let_def fit_kwargs_Nil kw_get_def failing_ext_hashes)
qed

text \<open>
  The claim as stated fails when the exception is a \<open>KeyboardInterrupt\<close>: the document
  is left as inserted, with no field \<open>error\<close>.
\<close>

theorem fit_interrupted_leaves_no_error_flag:
  "train (failing_ext KeyboardInterrupt) (example_arch ''Sequential'')
     example_data example_data [] (fit_kwargs []) = Inl KeyboardInterrupt
   \<and> fit (failing_ext KeyboardInterrupt) [] (PStr ''keras'') (PStr ''1.1.0'')
       (example_model ''Sequential'') example_data example_data [] []
     = (Inl KeyboardInterrupt,
        [full_json (failing_ext KeyboardInterrupt) (PStr ''keras'') (PStr ''1.1.0'')
           (example_arch ''Sequential'') (PStr ''6d6f64656c'') (PStr ''64617461'')
           (PStr ''/parameters_h5/6d6f64656c64617461.h5'') (PInt 32)])
   \<and> map_of (full_json (failing_ext KeyboardInterrupt) (PStr ''keras'') (PStr ''1.1.0'')
           (example_arch ''Sequential'') (PStr ''6d6f64656c'') (PStr ''64617461'')
           (PStr ''/parameters_h5/6d6f64656c64617461.h5'') (PInt 32)) ''error'' = None"
proof -
  have tr: "train (failing_ext KeyboardInterrupt) (example_arch ''Sequential'')
              example_data example_data [] (fit_kwargs []) = Inl KeyboardInterrupt"
    by (simp add: fit_kwargs_Nil failing_train)
  have "fit (failing_ext KeyboardInterrupt) [] (PStr ''keras'') (PStr ''1.1.0'')
       (example_model ''Sequential'') example_data example_data [] []
     = (Inl KeyboardInterrupt,
        [full_json (failing_ext KeyboardInterrupt) (PStr ''keras'') (PStr ''1.1.0'')
           (example_arch ''Sequential'') (PStr ''6d6f64656c'') (PStr ''64617461'')
           (PStr ''/parameters_h5/6d6f64656c64617461.h5'') (PInt 32)])"
    unfolding fit_unfold [OF example_model_arch] Let_def
    by (simp add: fit_protected_train_fails [OF failing_train] fit_kwargs_Nil kw_get_def
                  failing_ext_hashes)
  with tr show ?thesis by (simp add: full_json_def)
qed

lemma fit_kwargs_default:
  "kw_get kwargs ''batch_size'' = PNone \<Longrightarrow>
     fit_kwargs kwargs = AList.update ''batch_size'' (PInt 32) kwargs
     \<and> kw_get (fit_kwargs kwargs) ''batch_size'' = PInt 32"
  by (simp add: fit_kwargs_def kw_get_def update_conv')

lemma fit_kwargs_given:
  "kw_get kwargs ''batch_size'' \<noteq> PNone \<Longrightarrow> fit_kwargs kwargs = kwargs"
  by (simp add: fit_kwargs_def)

lemma fit_kwargs_idem: "fit_kwargs (fit_kwargs kwargs) = fit_kwargs kwargs"
  by (simp add: fit_kwargs_def kw_get_def update_conv')

lemma fit_depends_on_fit_kwargs:
  "fit ext db bn bv model data data_val args (fit_kwargs kwargs)
     = fit ext db bn bv model data data_val args kwargs"
  by (simp add: fit_def fit_kwargs_idem)

text \<open>
  Claim C9. Without a keyword argument \<open>batch_size\<close>, or with \<open>batch_size=None\<close>, \<open>fit\<close>
  runs as it does with \<open>batch_size=32\<close>: the model hash is computed with 32, the document
  it inserts records \<open>batch_size\<close> 32, and training gets \<open>batch_size=32\<close>. A value other
  than \<open>None\<close> is used for the hash, recorded, and passed on as given. The model is a
  dictionary with an entry \<open>model_arch\<close>, without which no document is inserted.
\<close>

theorem fit_default_batch_size:
  assumes "py_getitem model (PStr ''model_arch'') = Inr model_arch"
  shows "(kw_get kwargs ''batch_size'' = PNone \<longrightarrow>
            fit ext db bn bv model data data_val args kwargs
              = fit ext db bn bv model data data_val args
                  (AList.update ''batch_size'' (PInt 32) kwargs)
            \<and> fit ext db bn bv model data data_val args kwargs
              = (let hexdi_m = create_model_hash ext model (PInt 32);
                     hexdi_d = create_data_hash ext data;
                     params_dump = create_param_dump ext (path_h5 ext) hexdi_m hexdi_d
                 in fit_protected ext
                      (db_insert db
                         (full_json ext bn bv model_arch hexdi_m hexdi_d params_dump (PInt 32)))
                      model_arch data data_val args
                      (AList.update ''batch_size'' (PInt 32) kwargs)
                      hexdi_m hexdi_d params_dump))
       \<and> (kw_get kwargs ''batch_size'' = v \<and> v \<noteq> PNone \<longrightarrow>
            fit ext db bn bv model data data_val args kwargs
              = (let hexdi_m = create_model_hash ext model v;
                     hexdi_d = create_data_hash ext data;
                     params_dump = create_param_dump ext (path_h5 ext) hexdi_m hexdi_d
                 in fit_protected ext
                      (db_insert db
                         (full_json ext bn bv model_arch hexdi_m hexdi_d params_dump v))
                      model_arch data data_val args kwargs hexdi_m hexdi_d params_dump))
       \<and> map_of (full_json ext bn bv model_arch h_m h_d pd b) ''batch_size'' = Some b
       \<and> map_of (full_json ext bn bv model_arch h_m h_d pd b) ''mod_id'' = Some h_m"
proof (intro conjI impI)
  assume none: "kw_get kwargs ''batch_size'' = PNone"
  have k: "fit_kwargs kwargs = AList.update ''batch_size'' (PInt 32) kwargs"
    and b: "kw_get (fit_kwargs kwargs) ''batch_size'' = PInt 32"
    using fit_kwargs_default [OF none] by blast+
  show "fit ext db bn bv model data data_val args kwargs
          = fit ext db bn bv model data data_val args
              (AList.update ''batch_size'' (PInt 32) kwargs)"
    using fit_depends_on_fit_kwargs [of ext db bn bv model data data_val args kwargs] k by simp
  show "fit ext db bn bv model data data_val args kwargs
          = (let hexdi_m = create_model_hash ext model (PInt 32);
                 hexdi_d = create_data_hash ext data;
                 params_dump = create_param_dump ext (path_h5 ext) hexdi_m hexdi_d
             in fit_protected ext
                  (db_insert db
                     (full_json ext bn bv model_arch hexdi_m hexdi_d params_dump (PInt 32)))
                  model_arch data data_val args
                  (AList.update ''batch_size'' (PInt 32) kwargs)
                  hexdi_m hexdi_d params_dump)"
    using fit_unfold [OF assms, of ext db bn bv data data_val args kwargs] b k
    by (simp add: Let_def kw_get_def update_conv')
next
  assume given: "kw_get kwargs ''batch_size'' = v \<and> v \<noteq> PNone"
  then have k: "fit_kwargs kwargs = kwargs" by (simp add: fit_kwargs_given)
  show "fit ext db bn bv model data data_val args kwargs
          = (let hexdi_m = create_model_hash ext model v;
                 hexdi_d = create_data_hash ext data;
                 params_dump = create_param_dump ext (path_h5 ext) hexdi_m hexdi_d
             in fit_protected ext
                  (db_insert db
                     (full_json ext bn bv model_arch hexdi_m hexdi_d params_dump v))
                  model_arch data data_val args kwargs hexdi_m hexdi_d params_dump)"
    using fit_unfold [OF assms, of ext db bn bv data data_val args kwargs] given k
    by (simp add: Let_def)
qed (simp_all add: full_json_def)

theorem fit_default_batch_size_witness:
  "fit example_ext [] (PStr ''keras'') (PStr ''1.1.0'') (example_model ''Sequential'')
       example_data example_data [] []
     = fit example_ext [] (PStr ''keras'') (PStr ''1.1.0'') (example_model ''Sequential'')
         example_data example_data [] [(''batch_size'', PInt 32)]
   \<and> fit example_ext [] (PStr ''keras'') (PStr ''1.1.0'') (example_model ''Sequential'')
       example_data example_data [] [(''batch_size'', PNone)]
     = fit example_ext [] (PStr ''keras'') (PStr ''1.1.0'') (example_model ''Sequential'')
         example_data example_data [] [(''batch_size'', PInt 32)]
   \<and> fit example_ext [] (PStr ''keras'') (PStr ''1.1.0'') (example_model ''Sequential'')
       example_data example_data [] [(''batch_size'', PInt 64)]
     = fit_protected example_ext
         (db_insert []
            (full_json example_ext (PStr ''keras'') (PStr ''1.1.0'') (example_arch ''Sequential'')
               (create_model_hash example_ext (example_model ''Sequential'') (PInt 64))
               (create_data_hash example_ext example_data)
               (create_param_dump example_ext (path_h5 example_ext)
                  (create_model_hash example_ext (example_model ''Sequential'') (PInt 64))
                  (create_data_hash example_ext example_data))
               (PInt 64)))
         (example_arch ''Sequential'') example_data example_data [] [(''batch_size'', PInt 64)]
         (create_model_hash example_ext (example_model ''Sequential'') (PInt 64))
         (create_data_hash example_ext example_data)
         (create_param_dump example_ext (path_h5 example_ext)
            (create_model_hash example_ext (example_model ''Sequential'') (PInt 64))
            (create_data_hash example_ext example_data))"
proof -
  note th = fit_default_batch_size [OF example_model_arch, where ext = example_ext and db = "[]"
              and bn = "PStr ''keras''" and bv = "PStr ''1.1.0''" and data = example_data
              and data_val = example_data and args = "[]"]
  have a: "kw_get [] ''batch_size'' = PNone"
    and b: "kw_get [(''batch_size'', PNone)] ''batch_size'' = PNone"
    and c: "kw_get [(''batch_size'', PInt 64)] ''batch_size'' = PInt 64"
    by (simp_all add: kw_get_def)
  from th [where kwargs = "[]"] a
  have 1: "fit example_ext [] (PStr ''keras'') (PStr ''1.1.0'') (example_model ''Sequential'')
       example_data example_data [] []
     = fit example_ext [] (PStr ''keras'') (PStr ''1.1.0'') (example_model ''Sequential'')
         example_data example_data [] (AList.update ''batch_size'' (PInt 32) [])"
    by blast
  from th [where kwargs = "[(''batch_size'', PNone)]"] b
  have 2: "fit example_ext [] (PStr ''keras'') (PStr ''1.1.0'') (example_model ''Sequential'')
       example_data example_data [] [(''batch_size'', PNone)]
     = fit example_ext [] (PStr ''keras'') (PStr ''1.1.0'') (example_model ''Sequential'')
         example_data example_data []
         (AList.update ''batch_size'' (PInt 32) [(''batch_size'', PNone)])"
    by blast
  from th [where kwargs = "[(''batch_size'', PInt 64)]" and v = "PInt 64"] c
  have 3: "fit example_ext [] (PStr ''keras'') (PStr ''1.1.0'') (example_model ''Sequential'')
       example_data example_data [] [(''batch_size'', PInt 64)]
     = (let hexdi_m = create_model_hash example_ext (example_model ''Sequential'') (PInt 64);
            hexdi_d = create_data_hash example_ext example_data;
            params_dump = create_param_dump example_ext (path_h5 example_ext) hexdi_m hexdi_d
        in fit_protected example_ext
             (db_insert []
                (full_json example_ext (PStr ''keras'') (PStr ''1.1.0'')
                   (example_arch ''Sequential'') hexdi_m hexdi_d params_dump (PInt 64)))
             (example_arch ''Sequential'') example_data example_data []
             [(''batch_size'', PInt 64)] hexdi_m hexdi_d params_dump)"
    by blast
  from 1 2 3 show ?thesis by (simp add: Let_def)
qed









lemma example_accumulate:
  "accumulate (hist example_history) [''loss'', ''acc'']
     [(''loss'', []), (''val_loss'', []), (''acc'', []), (''val_acc'', [])]
   = Inr [(''loss'', [PFloat (9 / 10), PFloat (1 / 2)]),
          (''val_loss'', [PFloat (9 / 10), PFloat (1 / 2)]),
          (''acc'', [PFloat (1 / 2), PFloat (3 / 4)]),
          (''val_acc'', [PFloat (1 / 2), PFloat (3 / 4)])]"
  by (simp add: example_history_def lookupE_def)








section \<open>Properties of backend/keras_backend.py: predict and train\<close>




lemma predict_miss:
  assumes "py_getitem model (PStr ''mod_id'') = Inr mod_id" and "hashable mod_id"
    and "compiled_models (dict_key mod_id) = None"
  shows "predict ext compiled_models model data args kwargs =
           (case compile_model ext model (kw_get kwargs ''custom_objects'') of
              Inl e \<Rightarrow> (Inl e, compiled_models)
            | Inr (pred_function, model_k, model_name) \<Rightarrow>
                (predict_dispatch pred_function model_k model_name data,
                 compiled_models(dict_key mod_id \<mapsto> (pred_function, model_k))))"
  using assms by (simp add: predict_def Let_def)

lemma predict_hit:
  assumes "py_getitem model (PStr ''mod_id'') = Inr mod_id" and "hashable mod_id"
    and "compiled_models (dict_key mod_id) = Some (pred_function, model_k)"
  shows "predict ext compiled_models model data args kwargs =
           (case bindE (py_getitem model (PStr ''model_arch'')) (\<lambda>model_arch.
                 bindE (py_getitem model_arch (PStr ''config'')) (\<lambda>config.
                   py_get config ''class_name'' PNone)) of
              Inl e \<Rightarrow> (Inl e, compiled_models)
            | Inr model_name \<Rightarrow>
                (predict_dispatch pred_function model_k model_name data, compiled_models))"
  using assms by (simp add: predict_def Let_def)






lemma example_mod_id:
  "py_getitem (example_model name) (PStr ''mod_id'') = Inr (PStr ''6d6f64656c'')"
  by (simp add: example_model_def)

lemma dict_key_PStr: "dict_key (PStr s) = PStr s"
  by (simp add: dict_key_def)

lemma example_class_name:
  "bindE (py_getitem (example_model name) (PStr ''model_arch'')) (\<lambda>model_arch.
     bindE (py_getitem model_arch (PStr ''config'')) (\<lambda>config.
       py_get config ''class_name'' PNone)) = Inr (PStr name)"
  by (simp add: example_model_def example_arch_def)

lemma example_compile:
  "compile_model example_ext (example_model name) PNone
     = Inr (\<lambda>data. Inr data,
            \<lparr> class_name = name, class_name_interned = True,
              metrics_names = [''loss'', ''acc''], input_names = [''input_1''],
              weights = PStr ''/parameters_h5/6d6f64656c64617461.h5'' \<rparr>,
            PStr name)"
  by (simp add: compile_model_def example_model_def example_arch_def example_ext_def
                example_rebuild_def)





lemma mapE_error: "mapE f xs = Inl e \<Longrightarrow> \<exists>x \<in> set xs. f x = Inl e"
  by (induction xs) (auto simp: bindE_Inl_iff)

lemma predict_dispatch_unsupported:
  "model_name \<noteq> PStr ''Graph'' \<Longrightarrow> model_name \<noteq> PStr ''Sequential'' \<Longrightarrow>
   model_name \<noteq> PStr ''Model'' \<Longrightarrow>
     predict_dispatch pred_function model_k model_name data
       = Inl (NotImplementedError [Fmt model_name, Txt '': This type of model is not supported''])"
  by (simp add: predict_dispatch_def)

lemma py_getitem_not_NotImplementedError:
  "py_getitem x k \<noteq> Inl (NotImplementedError msg)"
  using py_getitem_error [of x k "NotImplementedError msg"] by auto

lemma input_lookup_not_NotImplementedError:
  "bindE (mapE (\<lambda>n. py_getitem data (PStr n)) names) (\<lambda>xs. Inr (PList xs))
     \<noteq> Inl (NotImplementedError msg)"
proof
  assume "bindE (mapE (\<lambda>n. py_getitem data (PStr n)) names) (\<lambda>xs. Inr (PList xs))
            = Inl (NotImplementedError msg)"
  then have "mapE (\<lambda>n. py_getitem data (PStr n)) names = Inl (NotImplementedError msg)"
    by (simp add: bindE_Inl_iff)
  from mapE_error [OF this] py_getitem_not_NotImplementedError show False by blast
qed

lemma predict_dispatch_supported:
  assumes name: "model_name = PStr ''Graph'' \<or> model_name = PStr ''Sequential''
                 \<or> model_name = PStr ''Model''"
    and pred: "\<forall>d msg. pred_function d \<noteq> Inl (NotImplementedError msg)"
  shows "predict_dispatch pred_function model_k model_name data \<noteq> Inl (NotImplementedError msg)"
proof
  assume e: "predict_dispatch pred_function model_k model_name data
               = Inl (NotImplementedError msg)"
  let ?look = "bindE (mapE (\<lambda>n. py_getitem data (PStr n)) (input_names model_k))
                 (\<lambda>xs. Inr (PList xs))"
  from name consider "model_name = PStr ''Graph''" | "model_name = PStr ''Sequential''"
    | "model_name = PStr ''Model''" by blast
  then show False
  proof cases
    case 1
    with e have "bindE (if is_dict data then ?look else Inr data)
                   (\<lambda>data. pred_function (if \<not> is_list data then PList [data] else data))
                 = Inl (NotImplementedError msg)"
      by (simp add: predict_dispatch_def)
    then show False
      using pred input_lookup_not_NotImplementedError [of data "input_names model_k" msg]
      by (auto simp: bindE_Inl_iff split: if_splits)
  next
    case 2
    with e pred show False by (simp add: predict_dispatch_def)
  next
    case 3
    with e have "bindE (if is_dict data then ?look
                        else if \<not> is_list data then Inr (PList [data]) else Inr data)
                   pred_function
                 = Inl (NotImplementedError msg)"
      by (simp add: predict_dispatch_def)
    then show False
      using pred input_lookup_not_NotImplementedError [of data "input_names model_k" msg]
      by (auto simp: bindE_Inl_iff split: if_splits)
  qed
qed

lemma train_unsupported:
  assumes "model_from_dict_w_opt ext model (kw_get kwargs ''custom_objects'') = Inr model_k"
    and "class_name model_k \<noteq> ''Graph''" and "class_name model_k \<noteq> ''Sequential''"
    and "class_name model_k \<noteq> ''Model''"
  shows "train ext model data data_val args kwargs
           = Inl (NotImplementedError
                   [Txt ''This type of modelis not supported: '', Fmt (PStr (class_name model_k))])"
  using assms by (simp add: train_def Let_def name_is_def)

text \<open>
  Claim C2, as the code has it. Whenever \<open>predict\<close> reaches its dispatch on the model type
  (the identifier is cached, or else the architecture has an \<open>optimizer\<close> entry to pop and
  rebuilding, loading the weights and compiling succeed), what it returns or raises is
  the outcome of the dispatch; for a class name other than \<open>'Graph'\<close>, \<open>'Sequential'\<close> and
  \<open>'Model'\<close> the dispatch raises a \<open>NotImplementedError\<close> that names the model type, and for
  these three names it raises no \<open>NotImplementedError\<close> unless the prediction function
  itself does. \<open>train\<close> raises a \<open>NotImplementedError\<close> naming the class when the model it
  rebuilt is of a class other than these three.
\<close>

theorem unsupported_model_type:
  "(py_getitem model (PStr ''mod_id'') = Inr mod_id \<and> hashable mod_id
      \<and> compiled_models (dict_key mod_id) = Some (pred_function, model_k)
      \<and> bindE (py_getitem model (PStr ''model_arch'')) (\<lambda>model_arch.
            bindE (py_getitem model_arch (PStr ''config'')) (\<lambda>config.
              py_get config ''class_name'' PNone)) = Inr model_name
    \<longrightarrow> fst (predict ext compiled_models model data args kwargs)
          = predict_dispatch pred_function model_k model_name data)
   \<and> (py_getitem model (PStr ''mod_id'') = Inr mod_id \<and> hashable mod_id
      \<and> compiled_models (dict_key mod_id) = None
      \<and> compile_model ext model (kw_get kwargs ''custom_objects'')
          = Inr (pred_function, model_k, model_name)
    \<longrightarrow> fst (predict ext compiled_models model data args kwargs)
          = predict_dispatch pred_function model_k model_name data)
   \<and> (model_name \<noteq> PStr ''Graph'' \<and> model_name \<noteq> PStr ''Sequential''
      \<and> model_name \<noteq> PStr ''Model''
    \<longrightarrow> predict_dispatch pred_function model_k model_name data
          = Inl (NotImplementedError
                  [Fmt model_name, Txt '': This type of model is not supported'']))
   \<and> ((model_name = PStr ''Graph'' \<or> model_name = PStr ''Sequential''
       \<or> model_name = PStr ''Model'')
      \<and> (\<forall>d m. pred_function d \<noteq> Inl (NotImplementedError m))
    \<longrightarrow> predict_dispatch pred_function model_k model_name data
          \<noteq> Inl (NotImplementedError msg))
   \<and> (model_from_dict_w_opt ext model_arch (kw_get kwargs ''custom_objects'') = Inr model_k
      \<and> class_name model_k \<noteq> ''Graph'' \<and> class_name model_k \<noteq> ''Sequential''
      \<and> class_name model_k \<noteq> ''Model''
    \<longrightarrow> train ext model_arch batches batches_val args kwargs
          = Inl (NotImplementedError
                  [Txt ''This type of modelis not supported: '',
                   Fmt (PStr (class_name model_k))]))"
proof (intro conjI impI)
  assume "py_getitem model (PStr ''mod_id'') = Inr mod_id \<and> hashable mod_id
      \<and> compiled_models (dict_key mod_id) = Some (pred_function, model_k)
      \<and> bindE (py_getitem model (PStr ''model_arch'')) (\<lambda>model_arch.
            bindE (py_getitem model_arch (PStr ''config'')) (\<lambda>config.
              py_get config ''class_name'' PNone)) = Inr model_name"
  then show "fst (predict ext compiled_models model data args kwargs)
          = predict_dispatch pred_function model_k model_name data"
    by (simp add: predict_hit)
next
  assume "py_getitem model (PStr ''mod_id'') = Inr mod_id \<and> hashable mod_id
      \<and> compiled_models (dict_key mod_id) = None
      \<and> compile_model ext model (kw_get kwargs ''custom_objects'')
          = Inr (pred_function, model_k, model_name)"
  then show "fst (predict ext compiled_models model data args kwargs)
          = predict_dispatch pred_function model_k model_name data"
    by (simp add: predict_miss)
next
  assume "model_name \<noteq> PStr ''Graph'' \<and> model_name \<noteq> PStr ''Sequential''
      \<and> model_name \<noteq> PStr ''Model''"
  then show "predict_dispatch pred_function model_k model_name data
          = Inl (NotImplementedError
                  [Fmt model_name, Txt '': This type of model is not supported''])"
    by (simp add: predict_dispatch_unsupported)
next
  assume "(model_name = PStr ''Graph'' \<or> model_name = PStr ''Sequential''
       \<or> model_name = PStr ''Model'')
      \<and> (\<forall>d m. pred_function d \<noteq> Inl (NotImplementedError m))"
  then show "predict_dispatch pred_function model_k model_name data
          \<noteq> Inl (NotImplementedError msg)"
    using predict_dispatch_supported [of model_name pred_function model_k data msg] by blast
next
  assume "model_from_dict_w_opt ext model_arch (kw_get kwargs ''custom_objects'') = Inr model_k
      \<and> class_name model_k \<noteq> ''Graph'' \<and> class_name model_k \<noteq> ''Sequential''
      \<and> class_name model_k \<noteq> ''Model''"
  then show "train ext model_arch batches batches_val args kwargs
          = Inl (NotImplementedError
                  [Txt ''This type of modelis not supported: '',
                   Fmt (PStr (class_name model_k))])"
    by (simp add: train_unsupported)
qed

theorem unsupported_model_type_witness:
  "fst (predict example_ext Map.empty (example_model ''Dense'') (PList [PFloat 1]) [] [])
     = Inl (NotImplementedError
             [Fmt (PStr ''Dense''), Txt '': This type of model is not supported''])
   \<and> fst (predict example_ext
            (Map.empty(PStr ''6d6f64656c'' \<mapsto>
               (\<lambda>data. Inr data,
                \<lparr> class_name = ''Dense'', class_name_interned = True,
                  metrics_names = [''loss'', ''acc''], input_names = [''input_1''],
                  weights = PStr ''/parameters_h5/6d6f64656c64617461.h5'' \<rparr>)))
            (example_model ''Dense'') (PList [PFloat 1]) [] [])
     = Inl (NotImplementedError
             [Fmt (PStr ''Dense''), Txt '': This type of model is not supported''])
   \<and> train example_ext (example_arch ''Dense'') example_data example_data [] []
     = Inl (NotImplementedError
             [Txt ''This type of modelis not supported: '', Fmt (PStr ''Dense'')])
   \<and> predict_dispatch (\<lambda>data. Inr data)
        \<lparr> class_name = ''Sequential'', class_name_interned = True,
          metrics_names = [''loss'', ''acc''], input_names = [''input_1''],
          weights = PNone \<rparr>
        (PStr ''Sequential'') (PList [PFloat 1])
     \<noteq> Inl (NotImplementedError [])"
proof -
  let ?K = "\<lparr> class_name = ''Dense'', class_name_interned = True,
             metrics_names = [''loss'', ''acc''], input_names = [''input_1''],
             weights = PStr ''/parameters_h5/6d6f64656c64617461.h5'' \<rparr>"
  let ?S = "\<lparr> class_name = ''Sequential'', class_name_interned = True,
             metrics_names = [''loss'', ''acc''], input_names = [''input_1''],
             weights = PNone \<rparr>"
  let ?cm = "Map.empty(PStr ''6d6f64656c'' \<mapsto> ((\<lambda>data. Inr data) :: pyval \<Rightarrow> exc + pyval, ?K))"
  let ?id = "\<lambda>data :: pyval. (Inr data :: exc + pyval)"
  have name: "PStr ''Dense'' \<noteq> PStr ''Graph'' \<and> PStr ''Dense'' \<noteq> PStr ''Sequential''
              \<and> PStr ''Dense'' \<noteq> PStr ''Model''"
    by simp
  have miss: "py_getitem (example_model ''Dense'') (PStr ''mod_id'') = Inr (PStr ''6d6f64656c'')
      \<and> hashable (PStr ''6d6f64656c'')
      \<and> Map.empty (dict_key (PStr ''6d6f64656c'')) = None
      \<and> compile_model example_ext (example_model ''Dense'') (kw_get [] ''custom_objects'')
          = Inr (?id, ?K, PStr ''Dense'')"
    by (simp add: example_mod_id kw_get_def example_compile)
  have hit: "py_getitem (example_model ''Dense'') (PStr ''mod_id'') = Inr (PStr ''6d6f64656c'')
      \<and> hashable (PStr ''6d6f64656c'')
      \<and> ?cm (dict_key (PStr ''6d6f64656c'')) = Some (?id, ?K)
      \<and> bindE (py_getitem (example_model ''Dense'') (PStr ''model_arch'')) (\<lambda>model_arch.
            bindE (py_getitem model_arch (PStr ''config'')) (\<lambda>config.
              py_get config ''class_name'' PNone)) = Inr (PStr ''Dense'')"
    by (simp add: example_mod_id dict_key_PStr example_class_name)
  have rebuilt: "model_from_dict_w_opt example_ext (example_arch ''Dense'')
                   (kw_get [] ''custom_objects'')
                 = Inr \<lparr> class_name = ''Dense'', class_name_interned = True,
                         metrics_names = [''loss'', ''acc''], input_names = [''input_1''],
                         weights = PNone \<rparr>"
    by (simp add: example_ext_def example_rebuild_arch)
  note th = unsupported_model_type
              [where ext = example_ext and model = "example_model ''Dense''"
                 and data = "PList [PFloat 1]" and args = "[]" and kwargs = "[]"
                 and mod_id = "PStr ''6d6f64656c''" and pred_function = ?id
                 and model_name = "PStr ''Dense''" and model_k = ?K]
  from th [where compiled_models = Map.empty] miss name
  have 1: "fst (predict example_ext Map.empty (example_model ''Dense'') (PList [PFloat 1]) [] [])
     = Inl (NotImplementedError
             [Fmt (PStr ''Dense''), Txt '': This type of model is not supported''])"
    by simp
  from th [where compiled_models = ?cm] hit name
  have 2: "fst (predict example_ext ?cm (example_model ''Dense'') (PList [PFloat 1]) [] [])
     = Inl (NotImplementedError
             [Fmt (PStr ''Dense''), Txt '': This type of model is not supported''])"
    by simp
  from unsupported_model_type
         [where ext = example_ext and model_arch = "example_arch ''Dense''" and kwargs = "[]"
            and model_k = "\<lparr> class_name = ''Dense'', class_name_interned = True,
                         metrics_names = [''loss'', ''acc''], input_names = [''input_1''],
                         weights = PNone \<rparr>"
            and batches = example_data and batches_val = example_data and args = "[]"]
       rebuilt
  have 3: "train example_ext (example_arch ''Dense'') example_data example_data [] []
     = Inl (NotImplementedError
             [Txt ''This type of modelis not supported: '', Fmt (PStr ''Dense'')])"
    by simp
  from unsupported_model_type
         [where model_name = "PStr ''Sequential''" and pred_function = ?id and model_k = ?S
            and data = "PList [PFloat 1]" and msg = "[]"]
  have 4: "predict_dispatch ?id ?S (PStr ''Sequential'') (PList [PFloat 1])
             \<noteq> Inl (NotImplementedError [])"
    by simp
  from 1 2 3 4 show ?thesis by blast
qed

text \<open>
  The claim as stated fails for a model serialized before it was compiled, which has no
  \<open>optimizer\<close> entry: \<open>predict\<close> raises the \<open>KeyError\<close> of \<open>model_dict.pop('optimizer')\<close>
  and never reaches the dispatch on the model type.
\<close>

theorem predict_without_optimizer_raises_KeyError:
  "fst (predict example_ext Map.empty
          (PDict [(''model_arch'',
                     PDict [(''config'', PDict [(''class_name'', PStr ''Dense''),
                                                (''config'', PDict [])])]),
                  (''mod_id'', PStr ''6d6f64656c''),
                  (''params_dump'', PStr ''/parameters_h5/6d6f64656c64617461.h5'')])
          (PList [PFloat 1]) [] [])
     = Inl (KeyError (PStr ''optimizer''))"
  by (simp add: predict_def Let_def compile_model_def dict_key_def kw_get_def)

end
